theory Spec2Isabelle
  imports Complex_Main "HOL-Library.Word"
begin

section \<open>SparseDataVector (libraries/data/include/SparseDataVector.h)\<close>

text \<open>\<^verbatim>\<open>size_t\<close> is an unsigned 64-bit integer: \<open>+\<close> wraps around.\<close>

type_synonym size_t = "64 word"

text \<open>
  A \<^verbatim>\<open>double\<close> is the real number it denotes (the two zeros are both \<open>Finite 0\<close>), an
  infinity or NaN. The source subtracts doubles and compares them with \<^verbatim>\<open><=\<close> and
  \<^verbatim>\<open>==\<close>: a comparison with NaN is false, and the difference of two equal infinities
  is NaN. On finite values the subtraction is exact here: rounding is not modelled.
\<close>

datatype double = Finite real | PlusInfinity | MinusInfinity | NaN

fun double_minus :: "double \<Rightarrow> double \<Rightarrow> double" where
  "double_minus (Finite a) (Finite b) = Finite (a - b)"
| "double_minus NaN _ = NaN"
| "double_minus _ NaN = NaN"
| "double_minus PlusInfinity PlusInfinity = NaN"
| "double_minus MinusInfinity MinusInfinity = NaN"
| "double_minus PlusInfinity _ = PlusInfinity"
| "double_minus MinusInfinity _ = MinusInfinity"
| "double_minus (Finite a) PlusInfinity = MinusInfinity"
| "double_minus (Finite a) MinusInfinity = PlusInfinity"

fun double_le :: "double \<Rightarrow> double \<Rightarrow> bool" where
  "double_le (Finite a) (Finite b) = (a \<le> b)"
| "double_le NaN _ = False"
| "double_le _ NaN = False"
| "double_le MinusInfinity _ = True"
| "double_le _ PlusInfinity = True"
| "double_le PlusInfinity _ = False"
| "double_le (Finite a) MinusInfinity = False"

record IndexValue =
  iv_index :: size_t
  iv_value :: double

subsection \<open>The index list\<close>

text \<open>
  \<^verbatim>\<open>IndexListType\<close> is a template parameter of the class. The source uses four of its
  operations, \<^verbatim>\<open>Size()\<close>, \<^verbatim>\<open>Max()\<close>, \<^verbatim>\<open>Append(index)\<close> and \<^verbatim>\<open>GetIterator()\<close>, and
  three of its iterator, \<^verbatim>\<open>IsValid()\<close>, \<^verbatim>\<open>Get()\<close> and \<^verbatim>\<open>Next()\<close>. It is taken here as
  the list of the integers appended so far, in the order they were appended; its iterator
  is the rest of the list that is still to be read.
\<close>

type_synonym IndexList = "size_t list"

definition IndexList_Size :: "IndexList \<Rightarrow> nat" where
  "IndexList_Size xs = length xs"

definition IndexList_Max :: "IndexList \<Rightarrow> size_t" where
  "IndexList_Max xs = Max (set xs)"

definition IndexList_Append :: "size_t \<Rightarrow> IndexList \<Rightarrow> IndexList" where
  "IndexList_Append i xs = xs @ [i]"

subsection \<open>The vector\<close>

record 'e SparseDataVector =
  indexList :: IndexList
  vals :: "'e list"

definition emptyVector :: "'e SparseDataVector" where
  "emptyVector = \<lparr>indexList = [], vals = []\<rparr>"

datatype exception =
    InputException_indexOutOfRange
  | AssertionFailure

text \<open>
  \<^verbatim>\<open>AppendElement(index, value)\<close>. The two conversions between \<^verbatim>\<open>double\<close> and
  \<^verbatim>\<open>ElementType\<close> are parameters: \<open>cast\<close> is \<^verbatim>\<open>static_cast<ElementType>\<close>, and
  \<open>toDouble\<close> is the promotion back to \<^verbatim>\<open>double\<close> that the subtraction in the
  assertion (and \<^verbatim>\<open>static_cast<double>\<close> in the iterators) performs. The result is the
  exception raised, if any, together with the vector as the call leaves it.
\<close>

definition AppendElement ::
  "(double \<Rightarrow> 'e) \<Rightarrow> ('e \<Rightarrow> double) \<Rightarrow> size_t \<Rightarrow> double \<Rightarrow> 'e SparseDataVector
     \<Rightarrow> exception option \<times> 'e SparseDataVector" where
  "AppendElement cast toDouble i x v =
     (if x = Finite 0 then (None, v)
      else
        let storedValue = cast x in
        if \<not> (double_le (double_minus (toDouble storedValue) x) (Finite (1 / 1000000)) \<and>
               double_le (double_minus x (toDouble storedValue)) (Finite (1 / 1000000)))
        then (Some AssertionFailure, v)
        else if IndexList_Size (indexList v) > 0 \<and> i \<le> IndexList_Max (indexList v)
        then (Some InputException_indexOutOfRange, v)
        else (None, v\<lparr>indexList := IndexList_Append i (indexList v),
                       vals := vals v @ [storedValue]\<rparr>))"

definition PrefixLength :: "'e SparseDataVector \<Rightarrow> size_t" where
  "PrefixLength v =
     (if IndexList_Size (indexList v) = 0 then 0 else IndexList_Max (indexList v) + 1)"

subsection \<open>The iterator of policy \<^verbatim>\<open>IterationPolicy::all\<close>\<close>

record 'e AllIterator =
  it_indexIterator :: "size_t list"
  it_valueIterator :: "'e list"
  it_iteratorIndex :: size_t
  it_size :: size_t
  it_index :: size_t

text \<open>The constructor: \<^verbatim>\<open>_index\<close> starts at 0 by its member initialiser.\<close>

definition AllIterator_ctor :: "size_t list \<Rightarrow> 'e list \<Rightarrow> size_t \<Rightarrow> 'e AllIterator" where
  "AllIterator_ctor indexIterator valueIterator sz =
     \<lparr>it_indexIterator = indexIterator,
      it_valueIterator = valueIterator,
      it_iteratorIndex = (case indexIterator of [] \<Rightarrow> sz | i # _ \<Rightarrow> i),
      it_size = sz,
      it_index = 0\<rparr>"

definition GetIterator_all :: "'e SparseDataVector \<Rightarrow> size_t \<Rightarrow> 'e AllIterator" where
  "GetIterator_all v sz = AllIterator_ctor (indexList v) (vals v) sz"

definition IsValid_all :: "'e AllIterator \<Rightarrow> bool" where
  "IsValid_all it = (it_index it < it_size it)"

text \<open>
  \<^verbatim>\<open>Next()\<close>. Advancing an exhausted iterator is undefined in C++; the model leaves it
  exhausted (\<open>drop 1 [] = []\<close>).
\<close>

definition Next_all :: "'e AllIterator \<Rightarrow> 'e AllIterator" where
  "Next_all it =
     (if it_index it = it_iteratorIndex it then
        let is = drop 1 (it_indexIterator it);
            vs = drop 1 (it_valueIterator it)
        in it\<lparr>it_indexIterator := is,
              it_valueIterator := vs,
              it_iteratorIndex :=
                (case is of [] \<Rightarrow> it_size it
                 | i # _ \<Rightarrow> if i < it_size it then i else it_size it),
              it_index := it_index it + 1\<rparr>
      else it\<lparr>it_index := it_index it + 1\<rparr>)"

text \<open>
  \<^verbatim>\<open>Get()\<close>. Dereferencing a value iterator that is at the end is undefined in C++: the
  model answers \<open>None\<close> there.
\<close>

definition Get_all :: "('e \<Rightarrow> double) \<Rightarrow> 'e AllIterator \<Rightarrow> IndexValue option" where
  "Get_all toDouble it =
     (if it_index it = it_iteratorIndex it then
        (case it_valueIterator it of
           [] \<Rightarrow> None
         | x # _ \<Rightarrow> Some \<lparr>iv_index = it_index it, iv_value = toDouble x\<rparr>)
      else Some \<lparr>iv_index = it_index it, iv_value = Finite 0\<rparr>)"

text \<open>
  The iterates a client reads with the loop
  \<^verbatim>\<open>while (it.IsValid()) { use(it.Get()); it.Next(); }\<close>.
\<close>

function iterates :: "('e \<Rightarrow> double) \<Rightarrow> 'e AllIterator \<Rightarrow> IndexValue option list" where
  "iterates toDouble it =
     (if IsValid_all it then Get_all toDouble it # iterates toDouble (Next_all it) else [])"
  by pat_completeness auto

termination iterates
proof (relation "measure (\<lambda>(toDouble, it). unat (it_size it) - unat (it_index it))")
  show "wf (measure (\<lambda>(toDouble :: 'a \<Rightarrow> double, it :: 'a AllIterator).
              unat (it_size it) - unat (it_index it)))"
    by simp
next
  fix toDouble :: "'a \<Rightarrow> double" and it :: "'a AllIterator"
  assume "IsValid_all it"
  then have lt: "it_index it < it_size it"
    by (simp add: IsValid_all_def)
  then have below: "unat (it_index it) < unat (it_size it)"
    by (simp add: word_less_nat_alt)
  from lt have "it_index it \<noteq> - 1"
    by (metis word_order.extremum_strict)
  then have "1 + it_index it \<noteq> 0"
    by (metis add.commute add_eq_0_iff)
  then have step: "unat (it_index it + 1) = Suc (unat (it_index it))"
    by (simp add: unatSuc add.commute)
  have "it_index (Next_all it) = it_index it + 1" and "it_size (Next_all it) = it_size it"
    by (simp_all add: Next_all_def Let_def)
  with below step show "((toDouble, Next_all it), (toDouble, it))
      \<in> measure (\<lambda>(toDouble, it). unat (it_size it) - unat (it_index it))"
    by simp
qed

declare iterates.simps [simp del]

subsection \<open>Notions the statements about the vector use\<close>

text \<open>
  The value a vector stores at an index, read as a \<^verbatim>\<open>double\<close>, and 0 where it stores
  none.
\<close>

definition valueAt :: "('e \<Rightarrow> double) \<Rightarrow> 'e SparseDataVector \<Rightarrow> size_t \<Rightarrow> double" where
  "valueAt toDouble v i =
     (case map_of (zip (indexList v) (vals v)) i of
        None \<Rightarrow> Finite 0
      | Some x \<Rightarrow> toDouble x)"

text \<open>The iterate the claim about the iterator expects at position \<open>m\<close>.\<close>

definition expected ::
  "('e \<Rightarrow> double) \<Rightarrow> size_t list \<Rightarrow> 'e list \<Rightarrow> nat \<Rightarrow> IndexValue option" where
  "expected toDouble js vs m =
     Some \<lparr>iv_index = of_nat m,
           iv_value = (case map_of (zip js vs) (of_nat m) of
                         None \<Rightarrow> Finite 0
                       | Some x \<Rightarrow> toDouble x)\<rparr>"

text \<open>
  The class comment: a sparse vector is an increasing list of indices and their
  corresponding values.
\<close>

definition increasing :: "'e SparseDataVector \<Rightarrow> bool" where
  "increasing v \<longleftrightarrow> sorted_wrt (<) (indexList v) \<and> length (indexList v) = length (vals v)"

text \<open>
  A client that calls \<^verbatim>\<open>AppendElement\<close> for each pair of a list, catching what a call
  throws. Beside the vector it keeps the index of the last call that returned normally
  with a nonzero value.
\<close>

fun appendLog ::
  "(double \<Rightarrow> 'e) \<Rightarrow> ('e \<Rightarrow> double) \<Rightarrow> (size_t \<times> double) list
     \<Rightarrow> 'e SparseDataVector \<times> size_t option \<Rightarrow> 'e SparseDataVector \<times> size_t option" where
  "appendLog cast toDouble [] st = st"
| "appendLog cast toDouble ((i, x) # rest) (v, l) =
     (case AppendElement cast toDouble i x v of
        (None, v') \<Rightarrow> appendLog cast toDouble rest (v', if x = Finite 0 then l else Some i)
      | (Some e, v') \<Rightarrow> appendLog cast toDouble rest (v', l))"

text \<open>
  What the client's log says of a vector: nothing was stored and the index list is empty,
  or the logged index is the largest index the vector stores.
\<close>

definition logged :: "'e SparseDataVector \<Rightarrow> size_t option \<Rightarrow> bool" where
  "logged v l =
     (case l of
        None \<Rightarrow> indexList v = []
      | Some i \<Rightarrow> indexList v \<noteq> [] \<and> Max (set (indexList v)) = i)"

text \<open>
  What the assertion of \<^verbatim>\<open>AppendElement\<close> comes to: the stored value, read back as a
  \<^verbatim>\<open>double\<close>, and the value are both finite and at most 1e-6 apart.
\<close>

definition withinTolerance :: "double \<Rightarrow> double \<Rightarrow> bool" where
  "withinTolerance t x =
     (case (t, x) of
        (Finite a, Finite b) \<Rightarrow> \<bar>a - b\<bar> \<le> 1 / 1000000
      | _ \<Rightarrow> False)"

text \<open>
  \<^verbatim>\<open>SparseShortDataVector\<close> has \<^verbatim>\<open>ElementType = short\<close>, a 16-bit two's complement
  integer. \<^verbatim>\<open>static_cast<short>\<close> of a finite \<^verbatim>\<open>double\<close> truncates towards zero; out
  of the range of \<^verbatim>\<open>short\<close> the conversion is undefined in C++ and the model keeps the
  low 16 bits. For an infinity or NaN it is undefined too, and the model answers 0.
\<close>

definition cast_short :: "double \<Rightarrow> 16 word" where
  "cast_short x =
     (case x of
        Finite r \<Rightarrow> word_of_int (if 0 \<le> r then \<lfloor>r\<rfloor> else \<lceil>r\<rceil>)
      | _ \<Rightarrow> 0)"

definition toDouble_short :: "16 word \<Rightarrow> double" where
  "toDouble_short s = Finite (of_int (sint s))"

text \<open>
  \<^verbatim>\<open>SparseDoubleDataVector\<close> has \<^verbatim>\<open>ElementType = double\<close>: both conversions are the
  identity.
\<close>

definition cast_double :: "double \<Rightarrow> double" where
  "cast_double x = x"

definition toDouble_double :: "double \<Rightarrow> double" where
  "toDouble_double x = x"

section \<open>MapCompiler (libraries/model/include/MapCompiler.h)\<close>

subsection \<open>Ports, variables and the module emitter\<close>

text \<open>
  An output port is known to the compiler by its address (\<^verbatim>\<open>const Port*\<close> is the key of
  the registry), its element count \<^verbatim>\<open>Size()\<close> and its type \<^verbatim>\<open>GetType()\<close>. The port
  types and the variable types are declared outside this header: they are the type
  parameters \<open>'pt\<close> and \<open>'vt\<close>.
\<close>

record 'pt OutputPortBase =
  port_addr :: nat
  port_Size :: nat
  port_Type :: 'pt

datatype VariableScope = Scope_global | Scope_input | Scope_output

record ('vt, 'v) Variable =
  var_scope :: VariableScope
  var_type :: 'vt
  var_size :: nat
  var_initialValue :: "'v option"

text \<open>
  A \<^verbatim>\<open>Variable*\<close> is \<open>None\<close> for \<^verbatim>\<open>nullptr\<close> and \<open>Some k\<close> for the \<open>k\<close>-th variable
  the emitter has created.
\<close>

type_synonym VariablePtr = "nat option"

record ('vt, 'v) ModuleEmitter =
  variables :: "('vt, 'v) Variable list"
  allocated :: "VariablePtr list"
  finalized :: "string list"

text \<open>
  Modelled from the spec: the module emitter, of which the header has only the calls. It
  creates a variable of a given scope, scalar type and element count, optionally with an
  initial value, and registers that a variable must be allocated storage. The overload
  of \<^verbatim>\<open>AddVectorVariable\<close> that takes an initial value takes no variable type: the type
  it gives the variable is the one of the value's C++ type, the parameter
  \<open>GetVariableType\<close> of \<open>AddVectorVariable_init\<close>.
\<close>

definition AddVectorVariable ::
  "VariableScope \<Rightarrow> 'vt \<Rightarrow> nat \<Rightarrow> ('vt, 'v) ModuleEmitter
     \<Rightarrow> VariablePtr \<times> ('vt, 'v) ModuleEmitter" where
  "AddVectorVariable sc ty n em =
     (Some (length (variables em)),
      em\<lparr>variables := variables em @
            [\<lparr>var_scope = sc, var_type = ty, var_size = n, var_initialValue = None\<rparr>]\<rparr>)"

definition AddVectorVariable_init ::
  "'vt \<Rightarrow> VariableScope \<Rightarrow> nat \<Rightarrow> 'v \<Rightarrow> ('vt, 'v) ModuleEmitter
     \<Rightarrow> VariablePtr \<times> ('vt, 'v) ModuleEmitter" where
  "AddVectorVariable_init GetVariableType sc n initialValue em =
     (Some (length (variables em)),
      em\<lparr>variables := variables em @
            [\<lparr>var_scope = sc, var_type = GetVariableType, var_size = n,
              var_initialValue = Some initialValue\<rparr>]\<rparr>)"

definition AllocateVariable ::
  "VariablePtr \<Rightarrow> ('vt, 'v) ModuleEmitter \<Rightarrow> ('vt, 'v) ModuleEmitter" where
  "AllocateVariable pVar em = em\<lparr>allocated := allocated em @ [pVar]\<rparr>"

subsection \<open>The compiler and its registry of scope frames\<close>

datatype fault =
    MalformedPort
  | DuplicateBinding
  | UnbalancedScope
  | ConfigurationFault
  | NullVariable

datatype event =
    BeginCompileModel
  | EndCompileModel
  | BeginCompileNode nat
  | EndCompileNode nat
  | NodeRegion nat
  | MergeNodeRegion nat bool

text \<open>
  \<^verbatim>\<open>_portToVarMaps\<close> is the vector of the header: the last frame is the top of the stack,
  the innermost scope. \<open>emitter\<close> is the object behind \<^verbatim>\<open>GetModuleEmitter()\<close>. \<open>trace\<close>
  is not a member of the class: it records the hooks and region calls of a compilation in
  the order they are made.
\<close>

record ('vt, 'v) MapCompiler =
  portToVarMaps :: "(nat \<rightharpoonup> VariablePtr) list"
  emitter :: "('vt, 'v) ModuleEmitter"
  trace :: "event list"

fun findBinding :: "nat \<Rightarrow> (nat \<rightharpoonup> VariablePtr) list \<Rightarrow> VariablePtr" where
  "findBinding k [] = None"
| "findBinding k (f # fs) = (case f k of Some pVar \<Rightarrow> pVar | None \<Rightarrow> findBinding k fs)"

text \<open>
  Modelled from the spec: \<^verbatim>\<open>GetVariableForPort\<close>, declared in the header and defined
  elsewhere. It returns the bound variable, searching all open frames from innermost to
  outermost, or a not-found signal (\<^verbatim>\<open>nullptr\<close>) if none exists, with no side effect.
\<close>

definition GetVariableForPort ::
  "('pt, 'a) OutputPortBase_scheme \<Rightarrow> ('vt, 'v) MapCompiler \<Rightarrow> VariablePtr" where
  "GetVariableForPort port c = findBinding (port_addr port) (rev (portToVarMaps c))"

text \<open>
  Modelled from the spec: \<^verbatim>\<open>SetVariableForPort\<close>, declared in the header and defined
  elsewhere. It binds a variable to a port in the current (topmost) frame; a port already
  bound in that frame is a duplicate-binding fault, a port bound in an enclosing frame is
  shadowed. The spec does not say what a call with no open frame does: the model raises
  the unbalanced-scope fault there.
\<close>

definition SetVariableForPort ::
  "('pt, 'a) OutputPortBase_scheme \<Rightarrow> VariablePtr \<Rightarrow> ('vt, 'v) MapCompiler
     \<Rightarrow> fault option \<times> ('vt, 'v) MapCompiler" where
  "SetVariableForPort port pVar c =
     (if portToVarMaps c = [] then (Some UnbalancedScope, c)
      else if port_addr port \<in> dom (last (portToVarMaps c)) then (Some DuplicateBinding, c)
      else (None, c\<lparr>portToVarMaps :=
                      butlast (portToVarMaps c) @
                      [(last (portToVarMaps c))(port_addr port \<mapsto> pVar)]\<rparr>))"

text \<open>
  Modelled from the spec: \<^verbatim>\<open>PushScope\<close> and \<^verbatim>\<open>PopScope\<close>, declared in the header and
  defined elsewhere. They open and close a frame; a pop with no open frame is the
  unbalanced-scope fault.
\<close>

definition PushScope :: "('vt, 'v) MapCompiler \<Rightarrow> ('vt, 'v) MapCompiler" where
  "PushScope c = c\<lparr>portToVarMaps := portToVarMaps c @ [Map.empty]\<rparr>"

definition PopScope ::
  "('vt, 'v) MapCompiler \<Rightarrow> fault option \<times> ('vt, 'v) MapCompiler" where
  "PopScope c =
     (if portToVarMaps c = [] then (Some UnbalancedScope, c)
      else (None, c\<lparr>portToVarMaps := butlast (portToVarMaps c)\<rparr>))"

text \<open>
  \<^verbatim>\<open>AllocatePortVariable(port, initialValue)\<close>, the template of the header.
  \<^verbatim>\<open>assert(port.Size() != 0)\<close> is the malformed-port fault. \<open>PortTypeToVariableType\<close> is
  declared outside the header and is a parameter.
\<close>

definition AllocatePortVariable ::
  "('pt \<Rightarrow> 'vt) \<Rightarrow> 'vt \<Rightarrow> ('pt, 'a) OutputPortBase_scheme \<Rightarrow> 'v :: zero
     \<Rightarrow> ('vt, 'v) MapCompiler \<Rightarrow> (fault + VariablePtr) \<times> ('vt, 'v) MapCompiler" where
  "AllocatePortVariable PortTypeToVariableType GetVariableType port initialValue c =
     (if port_Size port = 0 then (Inl MalformedPort, c)
      else
        let varType = PortTypeToVariableType (port_Type port);
            (pVar, em) =
              (if initialValue = 0
               then AddVectorVariable Scope_global varType (port_Size port) (emitter c)
               else AddVectorVariable_init GetVariableType Scope_global (port_Size port)
                      initialValue (emitter c));
            em' = AllocateVariable pVar em
        in case SetVariableForPort port pVar (c\<lparr>emitter := em'\<rparr>) of
             (Some f, c') \<Rightarrow> (Inl f, c')
           | (None, c') \<Rightarrow> (Inr pVar, c'))"

text \<open>
  Modelled from the spec: \<^verbatim>\<open>AllocatePortVariable(port)\<close>, the overload without an
  initial value, declared in the header and defined elsewhere. It requests a variable
  from the backend sized and typed to match the port, binds it via
  \<^verbatim>\<open>SetVariableForPort\<close> and returns it, and fails with the malformed-port fault if the
  port's element count is zero.
\<close>

definition AllocatePortVariable_port ::
  "('pt \<Rightarrow> 'vt) \<Rightarrow> ('pt, 'a) OutputPortBase_scheme
     \<Rightarrow> ('vt, 'v) MapCompiler \<Rightarrow> (fault + VariablePtr) \<times> ('vt, 'v) MapCompiler" where
  "AllocatePortVariable_port PortTypeToVariableType port c =
     (if port_Size port = 0 then (Inl MalformedPort, c)
      else
        let (pVar, em) =
              AddVectorVariable Scope_global (PortTypeToVariableType (port_Type port))
                (port_Size port) (emitter c);
            em' = AllocateVariable pVar em
        in case SetVariableForPort port pVar (c\<lparr>emitter := em'\<rparr>) of
             (Some f, c') \<Rightarrow> (Inl f, c')
           | (None, c') \<Rightarrow> (Inr pVar, c'))"

text \<open>
  \<^verbatim>\<open>GetOrAllocatePortVariable(port, initialValue)\<close>, the template of the header. It calls
  the overload \<^verbatim>\<open>AllocatePortVariable(port)\<close>, so \<open>initialValue\<close> is not used.
  \<^verbatim>\<open>assert(pVar != nullptr)\<close> is the fault \<open>NullVariable\<close>.
\<close>

definition GetOrAllocatePortVariable ::
  "('pt \<Rightarrow> 'vt) \<Rightarrow> ('pt, 'a) OutputPortBase_scheme \<Rightarrow> 'v
     \<Rightarrow> ('vt, 'v) MapCompiler \<Rightarrow> (fault + VariablePtr) \<times> ('vt, 'v) MapCompiler" where
  "GetOrAllocatePortVariable PortTypeToVariableType port initialValue c =
     (case (case GetVariableForPort port c of
              None \<Rightarrow> AllocatePortVariable_port PortTypeToVariableType port c
            | Some k \<Rightarrow> (Inr (Some k), c)) of
        (Inl f, c') \<Rightarrow> (Inl f, c')
      | (Inr pVar, c') \<Rightarrow> (if pVar = None then (Inl NullVariable, c') else (Inr pVar, c')))"

text \<open>
  The calls a compilation may make on the registry between two requests for the same
  port: requests of variables for ports, and scopes opened and closed. \<open>applyOps n\<close>
  makes them in order, whether or not a request ends in a fault, and answers \<open>None\<close>
  when a \<^verbatim>\<open>PopScope\<close> would close one of the first \<open>n\<close> frames.
\<close>

datatype ('pt, 'v) registryOp =
    Request "'pt OutputPortBase" 'v
  | Push
  | Pop

fun applyOps ::
  "('pt \<Rightarrow> 'vt) \<Rightarrow> nat \<Rightarrow> ('pt, 'v) registryOp list \<Rightarrow> ('vt, 'v) MapCompiler
     \<Rightarrow> ('vt, 'v) MapCompiler option" where
  "applyOps PortTypeToVariableType n [] c = Some c"
| "applyOps PortTypeToVariableType n (Request port initialValue # ops) c =
     applyOps PortTypeToVariableType n ops
       (snd (GetOrAllocatePortVariable PortTypeToVariableType port initialValue c))"
| "applyOps PortTypeToVariableType n (Push # ops) c =
     applyOps PortTypeToVariableType n ops (PushScope c)"
| "applyOps PortTypeToVariableType n (Pop # ops) c =
     (if length (portToVarMaps c) \<le> n then None
      else applyOps PortTypeToVariableType n ops (snd (PopScope c)))"

text \<open>
  What a search from the innermost frame finds in the list of what each frame says of one
  port.
\<close>

fun firstBound :: "VariablePtr option list \<Rightarrow> VariablePtr" where
  "firstBound [] = None"
| "firstBound (Some pVar # _) = pVar"
| "firstBound (None # rest) = firstBound rest"

subsection \<open>Compiling a map\<close>

record 'pt Node =
  node_id :: nat
  node_inputs :: "'pt OutputPortBase list"
  node_outputs :: "'pt OutputPortBase list"

text \<open>
  A map declares input and output port bindings; \<open>map_nodes\<close> is the graph's own
  enumeration of its nodes, in dependency order, which the compiler does not re-sort.
\<close>

record 'pt Map =
  map_inputs :: "'pt OutputPortBase list"
  map_outputs :: "'pt OutputPortBase list"
  map_nodes :: "'pt Node list"

datatype ArgType = ArgType_input | ArgType_output

text \<open>
  Modelled from the spec: \<^verbatim>\<open>AllocatePortFunctionArgument\<close> and
  \<^verbatim>\<open>AllocateMapFunctionArguments\<close>, declared in the header and defined elsewhere. A
  function-argument variable is allocated and bound for every declared input port and
  then for every declared output port, once per compiled map, before any node is visited.
\<close>

definition AllocatePortFunctionArgument ::
  "('pt \<Rightarrow> 'vt) \<Rightarrow> ('pt, 'a) OutputPortBase_scheme \<Rightarrow> ArgType
     \<Rightarrow> ('vt, 'v) MapCompiler \<Rightarrow> fault option \<times> ('vt, 'v) MapCompiler" where
  "AllocatePortFunctionArgument PortTypeToVariableType port argType c =
     (let (pVar, em) =
            AddVectorVariable (case argType of ArgType_input \<Rightarrow> Scope_input | ArgType_output \<Rightarrow> Scope_output)
              (PortTypeToVariableType (port_Type port)) (port_Size port) (emitter c)
      in SetVariableForPort port pVar (c\<lparr>emitter := em\<rparr>))"

fun allocateArguments ::
  "('pt \<Rightarrow> 'vt) \<Rightarrow> ('pt OutputPortBase \<times> ArgType) list
     \<Rightarrow> ('vt, 'v) MapCompiler \<Rightarrow> fault option \<times> ('vt, 'v) MapCompiler" where
  "allocateArguments PortTypeToVariableType [] c = (None, c)"
| "allocateArguments PortTypeToVariableType ((port, argType) # rest) c =
     (case AllocatePortFunctionArgument PortTypeToVariableType port argType c of
        (Some f, c') \<Rightarrow> (Some f, c')
      | (None, c') \<Rightarrow> allocateArguments PortTypeToVariableType rest c')"

definition AllocateMapFunctionArguments ::
  "('pt \<Rightarrow> 'vt) \<Rightarrow> 'pt Map \<Rightarrow> ('vt, 'v) MapCompiler
     \<Rightarrow> fault option \<times> ('vt, 'v) MapCompiler" where
  "AllocateMapFunctionArguments PortTypeToVariableType m c =
     allocateArguments PortTypeToVariableType
       (map (\<lambda>p. (p, ArgType_input)) (map_inputs m) @
        map (\<lambda>p. (p, ArgType_output)) (map_outputs m)) c"

definition record_event :: "event \<Rightarrow> ('vt, 'v) MapCompiler \<Rightarrow> ('vt, 'v) MapCompiler" where
  "record_event e c = c\<lparr>trace := trace c @ [e]\<rparr>"

text \<open>
  Modelled from the spec: \<^verbatim>\<open>CompileNodes\<close>, declared in the header and defined
  elsewhere. For each node, in the graph's order: \<^verbatim>\<open>OnBeginCompileNode\<close>,
  \<^verbatim>\<open>NewNodeRegion\<close>, \<^verbatim>\<open>TryMergeNodeRegion\<close>, the node's own lowering, then
  \<^verbatim>\<open>OnEndCompileNode\<close>. The hooks are no-ops but for the trace; the merge policy
  \<open>merge\<close> and the node lowering \<open>lower\<close> belong to the backend and to the nodes, and
  are parameters. A fault raised while compiling a node aborts the traversal.
\<close>

fun CompileNodes ::
  "('pt Node \<Rightarrow> ('vt, 'v) MapCompiler \<Rightarrow> fault option \<times> ('vt, 'v) MapCompiler)
     \<Rightarrow> ('pt Node \<Rightarrow> ('vt, 'v) MapCompiler \<Rightarrow> bool)
     \<Rightarrow> 'pt Node list \<Rightarrow> ('vt, 'v) MapCompiler
     \<Rightarrow> fault option \<times> ('vt, 'v) MapCompiler" where
  "CompileNodes lower merge [] c = (None, c)"
| "CompileNodes lower merge (n # ns) c =
     (let c1 = record_event (BeginCompileNode (node_id n)) c;
          c2 = record_event (NodeRegion (node_id n)) c1;
          c3 = record_event (MergeNodeRegion (node_id n) (merge n c2)) c2
      in case lower n c3 of
           (Some f, c4) \<Rightarrow> (Some f, c4)
         | (None, c4) \<Rightarrow>
             CompileNodes lower merge ns (record_event (EndCompileNode (node_id n)) c4))"

text \<open>
  Modelled from the spec: \<^verbatim>\<open>CompileMap\<close>, declared in the header and defined
  elsewhere. It validates that the map has at least one declared input and output port
  binding (a configuration fault otherwise), allocates the function arguments, traverses
  the nodes, invokes \<^verbatim>\<open>OnEndCompileModel\<close>, fails with the unbalanced-scope fault if
  frames remain open, and finalizes the function in the backend.
\<close>

definition CompileMap ::
  "('pt Node \<Rightarrow> ('vt, 'v) MapCompiler \<Rightarrow> fault option \<times> ('vt, 'v) MapCompiler)
     \<Rightarrow> ('pt Node \<Rightarrow> ('vt, 'v) MapCompiler \<Rightarrow> bool)
     \<Rightarrow> ('pt \<Rightarrow> 'vt) \<Rightarrow> 'pt Map \<Rightarrow> string \<Rightarrow> ('vt, 'v) MapCompiler
     \<Rightarrow> fault option \<times> ('vt, 'v) MapCompiler" where
  "CompileMap lower merge PortTypeToVariableType m functionName c =
     (if map_inputs m = [] \<or> map_outputs m = [] then (Some ConfigurationFault, c)
      else case AllocateMapFunctionArguments PortTypeToVariableType m c of
             (Some f, c1) \<Rightarrow> (Some f, c1)
           | (None, c1) \<Rightarrow>
               (case CompileNodes lower merge (map_nodes m) (record_event BeginCompileModel c1) of
                  (Some f, c2) \<Rightarrow> (Some f, c2)
                | (None, c2) \<Rightarrow>
                    (let c3 = record_event EndCompileModel c2
                     in if length (portToVarMaps c3) \<noteq> length (portToVarMaps c)
                        then (Some UnbalancedScope, c3)
                        else (None, c3\<lparr>emitter := (emitter c3)
                                \<lparr>finalized := finalized (emitter c3) @ [functionName]\<rparr>\<rparr>))))"

text \<open>
  A node lowering that requests a variable for the node's first output port, with a given
  initial value, and does nothing else.
\<close>

definition requestOutputVariable ::
  "('pt \<Rightarrow> 'vt) \<Rightarrow> 'vt \<Rightarrow> 'v :: zero \<Rightarrow> 'pt Node
     \<Rightarrow> ('vt, 'v) MapCompiler \<Rightarrow> fault option \<times> ('vt, 'v) MapCompiler" where
  "requestOutputVariable PortTypeToVariableType GetVariableType initialValue n c =
     (case node_outputs n of
        [] \<Rightarrow> (None, c)
      | port # _ \<Rightarrow>
          (case AllocatePortVariable PortTypeToVariableType GetVariableType port initialValue c of
             (Inl f, c') \<Rightarrow> (Some f, c')
           | (Inr _, c') \<Rightarrow> (None, c')))"

text \<open>
  A compiler state for the examples: one open frame without bindings, an emitter that has
  created no variable and finalized no function, an empty trace.
\<close>

definition freshCompiler :: "('vt, 'v) MapCompiler" where
  "freshCompiler =
     \<lparr>portToVarMaps = [Map.empty],
      emitter = \<lparr>variables = [], allocated = [], finalized = []\<rparr>,
      trace = []\<rparr>"

section \<open>Results on SparseDataVector\<close>

subsection \<open>Appending keeps the index list increasing\<close>

lemma increasing_emptyVector: "increasing emptyVector"
  by (simp add: increasing_def emptyVector_def)

lemma Max_snoc_above:
  "xs = [] \<or> Max (set xs) < (i::size_t) \<Longrightarrow> Max (set (xs @ [i])) = i"
proof (cases "xs = []")
  case True
  then show ?thesis by simp
next
  case False
  assume "xs = [] \<or> Max (set xs) < i"
  with False have "Max (set xs) < i" by simp
  then have "Max (set xs) \<le> i" by (rule order_less_imp_le)
  then have "max i (Max (set xs)) = i" by (rule max_absorb1)
  moreover have "Max (set (xs @ [i])) = max i (Max (set xs))" using False by simp
  ultimately show ?thesis by simp
qed

lemma within_tolerance:
  "(double_le (double_minus t x) (Finite (1 / 1000000)) \<and>
    double_le (double_minus x t) (Finite (1 / 1000000))) = withinTolerance t x"
proof -
  have fin: "(a - b \<le> e \<and> b - a \<le> e) = (\<bar>a - b\<bar> \<le> e)" for a b e :: real
    by (auto simp add: abs_le_iff)
  show ?thesis
    by (cases t; cases x) (simp_all only: double_minus.simps double_le.simps
        withinTolerance_def prod.case double.case fin simp_thms)
qed

lemma sorted_snoc_above:
  "sorted_wrt (<) xs \<Longrightarrow> xs = [] \<or> Max (set xs) < (i::size_t) \<Longrightarrow> sorted_wrt (<) (xs @ [i])"
proof -
  assume s: "sorted_wrt (<) xs" and a: "xs = [] \<or> Max (set xs) < i"
  have "\<forall>j\<in>set xs. j < i"
  proof
    fix j assume j: "j \<in> set xs"
    then have "j \<le> Max (set xs)" by simp
    moreover from j a have "Max (set xs) < i" by auto
    ultimately show "j < i" by simp
  qed
  with s show ?thesis by (simp add: sorted_wrt_append)
qed

lemma AppendElement_unfold:
  "AppendElement cast toDouble i x v =
     (if x = Finite 0 then (None, v)
      else if \<not> withinTolerance (toDouble (cast x)) x then (Some AssertionFailure, v)
      else if indexList v \<noteq> [] \<and> i \<le> Max (set (indexList v))
        then (Some InputException_indexOutOfRange, v)
      else (None, v\<lparr>indexList := indexList v @ [i], vals := vals v @ [cast x]\<rparr>))"
  unfolding AppendElement_def Let_def IndexList_Size_def IndexList_Max_def
      IndexList_Append_def within_tolerance
  by simp

lemma increasing_AppendElement:
  "increasing v \<Longrightarrow> increasing (snd (AppendElement cast toDouble i x v))"
  by (auto simp add: AppendElement_unfold increasing_def intro!: sorted_snoc_above)

lemma appendLog_logged:
  "logged v l \<Longrightarrow> appendLog cast toDouble ops (v, l) = (v', l') \<Longrightarrow> logged v' l'"
proof (induction ops arbitrary: v l)
  case Nil
  then show ?case by simp
next
  case (Cons a ops)
  obtain i x where a: "a = (i, x)" by (cases a)
  show ?case
  proof (cases "AppendElement cast toDouble i x v")
    case (Pair r w)
    show ?thesis
    proof (cases r)
      case None
      have "logged w (if x = Finite 0 then l else Some i)"
      proof (cases "x = Finite 0")
        case True
        with Pair Cons.prems(1) show ?thesis by (simp add: AppendElement_unfold)
      next
        case False
        with Pair None have ok: "indexList v = [] \<or> Max (set (indexList v)) < i"
          and w: "w = v\<lparr>indexList := indexList v @ [i], vals := vals v @ [cast x]\<rparr>"
          by (auto simp add: AppendElement_unfold split: if_splits)
        from ok have "Max (set (indexList v @ [i])) = i" by (rule Max_snoc_above)
        with False w show ?thesis by (simp add: logged_def)
      qed
      moreover have "appendLog cast toDouble ops (w, if x = Finite 0 then l else Some i) = (v', l')"
        using Cons.prems(2) a Pair None by simp
      ultimately show ?thesis by (rule Cons.IH)
    next
      case (Some e)
      with Pair have "w = v" by (auto simp add: AppendElement_unfold split: if_splits)
      moreover have "appendLog cast toDouble ops (w, l) = (v', l')"
        using Cons.prems(2) a Pair Some by simp
      ultimately show ?thesis using Cons.IH Cons.prems(1) by blast
    qed
  qed
qed

lemma appendLog_increasing:
  "increasing v \<Longrightarrow> increasing (fst (appendLog cast toDouble ops (v, l)))"
proof (induction ops arbitrary: v l)
  case Nil
  then show ?case by simp
next
  case (Cons a ops)
  obtain i x where a: "a = (i, x)" by (cases a)
  have "increasing (snd (AppendElement cast toDouble i x v))"
    using Cons.prems by (rule increasing_AppendElement)
  then show ?case
    using a Cons.IH by (cases "AppendElement cast toDouble i x v") (auto split: option.splits)
qed

subsection \<open>AppendElement and PrefixLength\<close>

text \<open>
  Claim C8, as stated, at a \<^verbatim>\<open>SparseShortDataVector\<close>: appending the value 0.5 at index
  0 to the empty vector. The value is not zero and the vector is empty, so the claim has
  the index and the converted value appended. The conversion to \<^verbatim>\<open>short\<close> gives 0, which
  is further than 1e-6 from 0.5: the assertion fails and nothing is appended.
\<close>

theorem AppendElement_lossy_counterexample:
  "Finite (1 / 2) \<noteq> Finite 0 \<and> indexList (emptyVector :: 16 word SparseDataVector) = [] \<and>
   AppendElement cast_short toDouble_short 0 (Finite (1 / 2)) emptyVector
     = (Some AssertionFailure, emptyVector) \<and>
   AppendElement cast_short toDouble_short 0 (Finite (1 / 2)) emptyVector
     \<noteq> (None, \<lparr>indexList = [0], vals = [cast_short (Finite (1 / 2))]\<rparr>)"
  by (simp add: AppendElement_unfold withinTolerance_def cast_short_def toDouble_short_def
      emptyVector_def)

text \<open>
  Claim C8, amended. \<^verbatim>\<open>AppendElement(index, value)\<close> is a no-op when the value is 0.
  When the value is not 0 and its conversion to \<^verbatim>\<open>ElementType\<close> is not within 1e-6 of
  it, the assertion fails and the vector is unchanged. When the conversion is within
  1e-6, the vector is non-empty and the index is at most the largest index stored, the
  input exception is thrown and the vector is unchanged; otherwise the index is appended
  to the index list and the converted value to the value list.
\<close>

theorem AppendElement_outcomes:
  "(x = Finite 0 \<longrightarrow> AppendElement cast toDouble i x v = (None, v)) \<and>
   (x \<noteq> Finite 0 \<and> \<not> withinTolerance (toDouble (cast x)) x \<longrightarrow>
      AppendElement cast toDouble i x v = (Some AssertionFailure, v)) \<and>
   (x \<noteq> Finite 0 \<and> withinTolerance (toDouble (cast x)) x \<and>
    indexList v \<noteq> [] \<and> i \<le> Max (set (indexList v)) \<longrightarrow>
      AppendElement cast toDouble i x v = (Some InputException_indexOutOfRange, v)) \<and>
   (x \<noteq> Finite 0 \<and> withinTolerance (toDouble (cast x)) x \<and>
    (indexList v = [] \<or> Max (set (indexList v)) < i) \<longrightarrow>
      AppendElement cast toDouble i x v
        = (None, \<lparr>indexList = indexList v @ [i], vals = vals v @ [cast x]\<rparr>))"
  by (auto simp add: AppendElement_unfold simp del: Max_less_iff)

theorem AppendElement_outcomes_witness:
  "AppendElement cast_short toDouble_short 7 (Finite 0) \<lparr>indexList = [2, 4], vals = [1, 1]\<rparr>
     = (None, \<lparr>indexList = [2, 4], vals = [1, 1]\<rparr>) \<and>
   AppendElement cast_short toDouble_short 7 (Finite (1 / 2))
       \<lparr>indexList = [2, 4], vals = [1, 1]\<rparr>
     = (Some AssertionFailure, \<lparr>indexList = [2, 4], vals = [1, 1]\<rparr>) \<and>
   AppendElement cast_short toDouble_short 4 (Finite 3) \<lparr>indexList = [2, 4], vals = [1, 1]\<rparr>
     = (Some InputException_indexOutOfRange, \<lparr>indexList = [2, 4], vals = [1, 1]\<rparr>) \<and>
   AppendElement cast_short toDouble_short 7 (Finite 3) \<lparr>indexList = [2, 4], vals = [1, 1]\<rparr>
     = (None, \<lparr>indexList = [2, 4, 7], vals = [1, 1, 3]\<rparr>) \<and>
   AppendElement cast_double toDouble_double 7 (Finite (1 / 2))
       \<lparr>indexList = [2, 4], vals = [Finite 1, Finite 1]\<rparr>
     = (None, \<lparr>indexList = [2, 4, 7], vals = [Finite 1, Finite 1, Finite (1 / 2)]\<rparr>) \<and>
   AppendElement cast_double toDouble_double 7 NaN
       \<lparr>indexList = [2, 4], vals = [Finite 1, Finite 1]\<rparr>
     = (Some AssertionFailure, \<lparr>indexList = [2, 4], vals = [Finite 1, Finite 1]\<rparr>) \<and>
   AppendElement cast_double toDouble_double 7 PlusInfinity
       \<lparr>indexList = [2, 4], vals = [Finite 1, Finite 1]\<rparr>
     = (Some AssertionFailure, \<lparr>indexList = [2, 4], vals = [Finite 1, Finite 1]\<rparr>)"
  using AppendElement_outcomes [where x = "Finite 0" and i = 7 and cast = cast_short
          and toDouble = toDouble_short and v = "\<lparr>indexList = [2, 4], vals = [1, 1]\<rparr>"]
        AppendElement_outcomes [where x = "Finite (1 / 2)" and i = 7 and cast = cast_short
          and toDouble = toDouble_short and v = "\<lparr>indexList = [2, 4], vals = [1, 1]\<rparr>"]
        AppendElement_outcomes [where x = "Finite 3" and i = 4 and cast = cast_short
          and toDouble = toDouble_short and v = "\<lparr>indexList = [2, 4], vals = [1, 1]\<rparr>"]
        AppendElement_outcomes [where x = "Finite 3" and i = 7 and cast = cast_short
          and toDouble = toDouble_short and v = "\<lparr>indexList = [2, 4], vals = [1, 1]\<rparr>"]
        AppendElement_outcomes [where x = "Finite (1 / 2)" and i = 7 and cast = cast_double
          and toDouble = toDouble_double and v = "\<lparr>indexList = [2, 4], vals = [Finite 1, Finite 1]\<rparr>"]
        AppendElement_outcomes [where x = "NaN" and i = 7 and cast = cast_double
          and toDouble = toDouble_double and v = "\<lparr>indexList = [2, 4], vals = [Finite 1, Finite 1]\<rparr>"]
        AppendElement_outcomes [where x = "PlusInfinity" and i = 7 and cast = cast_double
          and toDouble = toDouble_double and v = "\<lparr>indexList = [2, 4], vals = [Finite 1, Finite 1]\<rparr>"]
  by (simp add: withinTolerance_def cast_short_def toDouble_short_def cast_double_def
      toDouble_double_def)

text \<open>
  Claim C9. \<^verbatim>\<open>PrefixLength()\<close> is 0 when the index list is empty and otherwise the
  largest stored index plus one, in \<^verbatim>\<open>size_t\<close> arithmetic; unless that index is the
  largest \<^verbatim>\<open>size_t\<close>, this is its successor as a number. For a vector built from the
  empty one by calls of \<^verbatim>\<open>AppendElement\<close>, it is 0 when no call stored an element and
  otherwise one plus the index of the last call that returned normally with a nonzero
  value.
\<close>

theorem PrefixLength_largest_index:
  "(indexList v = [] \<longrightarrow> PrefixLength v = 0) \<and>
   (indexList v \<noteq> [] \<longrightarrow> PrefixLength v = Max (set (indexList v)) + 1) \<and>
   (indexList v \<noteq> [] \<and> Max (set (indexList v)) \<noteq> - 1 \<longrightarrow>
      unat (PrefixLength v) = Suc (unat (Max (set (indexList v))))) \<and>
   PrefixLength (fst (appendLog cast toDouble ops (emptyVector, None)))
     = (case snd (appendLog cast toDouble ops (emptyVector, None)) of
          None \<Rightarrow> 0 | Some i \<Rightarrow> i + 1)"
proof -
  have a: "indexList v = [] \<longrightarrow> PrefixLength v = 0"
    by (simp add: PrefixLength_def IndexList_Size_def)
  have b: "indexList v \<noteq> [] \<longrightarrow> PrefixLength v = Max (set (indexList v)) + 1"
    by (simp add: PrefixLength_def IndexList_Size_def IndexList_Max_def)
  have c: "indexList v \<noteq> [] \<and> Max (set (indexList v)) \<noteq> - 1 \<longrightarrow>
      unat (PrefixLength v) = Suc (unat (Max (set (indexList v))))"
  proof
    assume h: "indexList v \<noteq> [] \<and> Max (set (indexList v)) \<noteq> - 1"
    then have "1 + Max (set (indexList v)) \<noteq> 0"
      by (metis add.commute add_eq_0_iff)
    then have "unat (1 + Max (set (indexList v))) = Suc (unat (Max (set (indexList v))))"
      by (rule unatSuc)
    with h b show "unat (PrefixLength v) = Suc (unat (Max (set (indexList v))))"
      by (simp add: add.commute)
  qed
  obtain w l where r: "appendLog cast toDouble ops (emptyVector, None) = (w, l)"
    by (cases "appendLog cast toDouble ops (emptyVector, None)")
  have "logged emptyVector None"
    by (simp add: logged_def emptyVector_def)
  from this r have "logged w l" by (rule appendLog_logged)
  then have d: "PrefixLength w = (case l of None \<Rightarrow> 0 | Some i \<Rightarrow> i + 1)"
    by (cases l) (simp_all add: logged_def PrefixLength_def IndexList_Size_def IndexList_Max_def)
  from a b c d r show ?thesis by simp
qed

theorem PrefixLength_largest_index_witness:
  "PrefixLength \<lparr>indexList = [2, 4], vals = [Finite 1, Finite 1]\<rparr> = 5 \<and>
   unat (PrefixLength \<lparr>indexList = [2, 4], vals = [Finite 1, Finite 1]\<rparr>) = 5 \<and>
   PrefixLength (emptyVector :: double SparseDataVector) = 0 \<and>
   appendLog cast_double toDouble_double
       [(2, Finite 1), (3, Finite 0), (1, Finite 9), (4, Finite 1), (5, NaN), (6, Finite 0)]
       (emptyVector, None)
     = (\<lparr>indexList = [2, 4], vals = [Finite 1, Finite 1]\<rparr>, Some 4) \<and>
   PrefixLength (fst (appendLog cast_double toDouble_double
       [(2, Finite 1), (3, Finite 0), (1, Finite 9), (4, Finite 1), (5, NaN), (6, Finite 0)]
       (emptyVector, None))) = 4 + 1"
  using PrefixLength_largest_index
          [of "\<lparr>indexList = [2, 4], vals = [Finite 1, Finite 1]\<rparr>"
              cast_double toDouble_double
              "[(2, Finite 1), (3, Finite 0), (1, Finite 9), (4, Finite 1), (5, NaN),
                (6, Finite 0)]"]
        PrefixLength_largest_index [of "emptyVector :: double SparseDataVector"
          cast_double toDouble_double "[]"]
  by (simp add: AppendElement_unfold withinTolerance_def cast_double_def toDouble_double_def
      emptyVector_def)

subsection \<open>The iterates of the iterator\<close>

lemma unat_succ_below: "(i::size_t) < n \<Longrightarrow> unat (i + 1) = Suc (unat i)"
proof -
  assume "i < n"
  then have "i \<noteq> - 1"
    by (metis word_order.extremum_strict)
  then have "1 + i \<noteq> 0"
    by (metis add_eq_0_iff)
  then show ?thesis
    by (simp add: unatSuc add.commute)
qed

lemma iterates_valid:
  "IsValid_all it \<Longrightarrow> iterates toDouble it = Get_all toDouble it # iterates toDouble (Next_all it)"
  by (subst iterates.simps) (simp only: if_True)

lemma iterates_invalid: "\<not> IsValid_all it \<Longrightarrow> iterates toDouble it = []"
  by (subst iterates.simps) (simp only: if_False)

lemma iterates_gen:
  "sorted_wrt (<) js \<Longrightarrow> length js = length vs \<Longrightarrow> \<forall>j\<in>set js. k \<le> j \<Longrightarrow> k \<le> n \<Longrightarrow>
   (case js of [] \<Rightarrow> ii = n | j # _ \<Rightarrow> if j < n then ii = j else n \<le> ii) \<Longrightarrow>
   iterates toDouble \<lparr>it_indexIterator = js, it_valueIterator = vs, it_iteratorIndex = ii,
                      it_size = n, it_index = k\<rparr>
   = map (expected toDouble js vs) [unat k..<unat n]"
proof (induction "unat n - unat k" arbitrary: k js vs ii)
  case 0
  then have "unat n \<le> unat k" by simp
  moreover from 0 have "unat k \<le> unat n" by (simp add: word_le_nat_alt)
  ultimately have "k = n" by (simp add: word_unat_eq_iff)
  then show ?case by (simp add: iterates_invalid IsValid_all_def)
next
  case (Suc d)
  then have kn: "k < n" by (simp add: word_less_nat_alt)
  have uk: "unat (k + 1) = Suc (unat k)" using kn by (rule unat_succ_below)
  have k1n: "k + 1 \<le> n" using kn by (rule inc_le)
  have d: "d = unat n - unat (k + 1)" using Suc.hyps(2) uk by simp
  have range: "[unat k..<unat n] = unat k # [unat (k + 1)..<unat n]"
    using kn uk by (simp add: word_less_nat_alt upt_conv_Cons)
  let ?it = "\<lparr>it_indexIterator = js, it_valueIterator = vs, it_iteratorIndex = ii,
                      it_size = n, it_index = k\<rparr>"
  have unfold: "iterates toDouble ?it = Get_all toDouble ?it # iterates toDouble (Next_all ?it)"
    using kn by (intro iterates_valid) (simp add: IsValid_all_def)
  show ?case
  proof (cases "k = ii")
    case True
    have iin: "ii < n" using kn True by simp
    obtain j js' where js: "js = j # js'" and jn: "j < n" and jk: "j = k"
    proof (cases js)
      case Nil
      with Suc.prems(5) have "ii = n" by simp
      with iin show ?thesis by simp
    next
      case (Cons j js')
      show ?thesis
      proof (cases "j < n")
        case jn: True
        with Suc.prems(5) Cons have "ii = j" by simp
        with True have "j = k" by simp
        with Cons jn that show ?thesis by blast
      next
        case False
        with Suc.prems(5) Cons have "n \<le> ii" by simp
        with iin show ?thesis by simp
      qed
    qed
    with Suc.prems(2) obtain x vs' where vs: "vs = x # vs'"
      by (cases vs) auto
    have get: "Get_all toDouble ?it = expected toDouble js vs (unat k)"
      using True js vs jk by (simp add: Get_all_def expected_def)
    have sorted': "sorted_wrt (<) js'" and len': "length js' = length vs'"
      using Suc.prems(1,2) js vs by simp_all
    have above: "\<forall>i\<in>set js'. k + 1 \<le> i"
      using Suc.prems(1) js jk by (auto intro: inc_le)
    let ?ii' = "case js' of [] \<Rightarrow> n | i # _ \<Rightarrow> if i < n then i else n"
    have sync: "case js' of [] \<Rightarrow> ?ii' = n | i # _ \<Rightarrow> if i < n then ?ii' = i else n \<le> ?ii'"
      by (cases js') auto
    have nxt: "Next_all ?it = \<lparr>it_indexIterator = js', it_valueIterator = vs',
        it_iteratorIndex = ?ii', it_size = n, it_index = k + 1\<rparr>"
      using True js vs by (simp add: Next_all_def split: list.split)
    have ih: "iterates toDouble (Next_all ?it) = map (expected toDouble js' vs') [unat (k + 1)..<unat n]"
      unfolding nxt using d sorted' len' above k1n sync by (rule Suc.hyps(1))
    have "map (expected toDouble js' vs') [unat (k + 1)..<unat n]
        = map (expected toDouble js vs) [unat (k + 1)..<unat n]"
    proof (rule map_cong [OF refl])
      fix m assume "m \<in> set [unat (k + 1)..<unat n]"
      then have m: "unat k < m" "m < unat n" using uk by auto
      have "m \<le> unat n" using m(2) by simp
      then have "unat (of_nat m :: size_t) = m" by (rule le_unat_uoi)
      with m(1) have "(of_nat m :: size_t) \<noteq> k" by auto
      then show "expected toDouble js' vs' m = expected toDouble js vs m"
        using js vs jk by (simp add: expected_def)
    qed
    with unfold get ih range show ?thesis by simp
  next
    case False
    have notin: "k \<notin> set js"
    proof (cases js)
      case Nil
      then show ?thesis by simp
    next
      case (Cons j js')
      have "k < j"
      proof (cases "j < n")
        case True
        with Suc.prems(5) Cons have "ii = j" by simp
        with False have "k \<noteq> j" by simp
        moreover have "k \<le> j" using Suc.prems(3) Cons by simp
        ultimately show ?thesis by simp
      next
        case False
        with kn show ?thesis by simp
      qed
      moreover have "\<forall>i\<in>set js'. j < i" using Suc.prems(1) Cons by simp
      ultimately show ?thesis using Cons by auto
    qed
    then have "map_of (zip js vs) k = None"
      by (metis map_of_eq_None_iff set_zip_leftD imageE prod.collapse)
    then have get: "Get_all toDouble ?it = expected toDouble js vs (unat k)"
      using False by (simp add: Get_all_def expected_def)
    have above: "\<forall>i\<in>set js. k + 1 \<le> i"
    proof
      fix i assume i: "i \<in> set js"
      with Suc.prems(3) have "k \<le> i" by simp
      moreover from i notin have "k \<noteq> i" by auto
      ultimately have "k < i" by simp
      then show "k + 1 \<le> i" by (rule inc_le)
    qed
    have nxt: "Next_all ?it = \<lparr>it_indexIterator = js, it_valueIterator = vs,
        it_iteratorIndex = ii, it_size = n, it_index = k + 1\<rparr>"
      using False by (simp add: Next_all_def)
    have ih: "iterates toDouble (Next_all ?it) = map (expected toDouble js vs) [unat (k + 1)..<unat n]"
      unfolding nxt using d Suc.prems(1) Suc.prems(2) above k1n Suc.prems(5) by (rule Suc.hyps(1))
    with unfold get range show ?thesis by simp
  qed
qed

text \<open>
  Claim C10. For a vector whose index list is increasing and as long as its value list
  (\<open>increasing_emptyVector\<close> and \<open>increasing_AppendElement\<close>: the empty vector is such
  a vector and \<^verbatim>\<open>AppendElement\<close> keeps it one), the iterator of policy \<^verbatim>\<open>all\<close> over a
  prefix of size \<open>n\<close> yields exactly \<open>n\<close> iterates, at the indices 0, 1, ..., \<open>n - 1\<close> in
  this order, each with the value stored at its index, or 0 where none is stored.
\<close>

theorem all_iterator_iterates:
  "increasing v \<Longrightarrow>
   iterates toDouble (GetIterator_all v n)
     = map (\<lambda>m. Some \<lparr>iv_index = of_nat m, iv_value = valueAt toDouble v (of_nat m)\<rparr>)
         [0..<unat n] \<and>
   length (iterates toDouble (GetIterator_all v n)) = unat n"
proof -
  assume inc: "increasing v"
  let ?js = "indexList v" and ?vs = "vals v"
  have s: "sorted_wrt (<) ?js" and l: "length ?js = length ?vs"
    using inc by (simp_all add: increasing_def)
  have z: "\<forall>j\<in>set ?js. 0 \<le> j" by simp
  have zn: "(0 :: size_t) \<le> n" by simp
  let ?ii = "case ?js of [] \<Rightarrow> n | i # _ \<Rightarrow> i"
  have sync: "case ?js of [] \<Rightarrow> ?ii = n | j # _ \<Rightarrow> if j < n then ?ii = j else n \<le> ?ii"
    by (cases ?js) auto
  have "iterates toDouble \<lparr>it_indexIterator = ?js, it_valueIterator = ?vs,
          it_iteratorIndex = ?ii, it_size = n, it_index = 0\<rparr>
        = map (expected toDouble ?js ?vs) [unat (0 :: size_t)..<unat n]"
    using s l z zn sync by (rule iterates_gen)
  moreover have "expected toDouble ?js ?vs
      = (\<lambda>m. Some \<lparr>iv_index = of_nat m, iv_value = valueAt toDouble v (of_nat m)\<rparr>)"
    by (rule ext) (simp add: expected_def valueAt_def)
  ultimately have e: "iterates toDouble (GetIterator_all v n)
     = map (\<lambda>m. Some \<lparr>iv_index = of_nat m, iv_value = valueAt toDouble v (of_nat m)\<rparr>)
         [0..<unat n]"
    by (simp add: GetIterator_all_def AllIterator_ctor_def)
  then show ?thesis by simp
qed

theorem all_iterator_iterates_witness:
  "increasing \<lparr>indexList = [1, 3], vals = [Finite 5, Finite 7]\<rparr> \<and>
   iterates toDouble_double
       (GetIterator_all \<lparr>indexList = [1, 3], vals = [Finite 5, Finite 7]\<rparr> 5)
     = [Some \<lparr>iv_index = 0, iv_value = Finite 0\<rparr>, Some \<lparr>iv_index = 1, iv_value = Finite 5\<rparr>,
        Some \<lparr>iv_index = 2, iv_value = Finite 0\<rparr>, Some \<lparr>iv_index = 3, iv_value = Finite 7\<rparr>,
        Some \<lparr>iv_index = 4, iv_value = Finite 0\<rparr>]"
proof -
  have inc: "increasing \<lparr>indexList = [1, 3], vals = [Finite 5, Finite 7]\<rparr>"
    by (simp add: increasing_def)
  have r: "[0..<5] = [0, 1, 2, 3, 4 :: nat]"
    by (simp add: upt_rec)
  show ?thesis
    using inc all_iterator_iterates [OF inc, of toDouble_double 5]
    by (simp add: valueAt_def toDouble_double_def r)
qed

section \<open>Results on MapCompiler\<close>

subsection \<open>The registry\<close>

lemma GetVariableForPort_PushScope:
  "GetVariableForPort port (PushScope c) = GetVariableForPort port c"
  by (simp add: GetVariableForPort_def PushScope_def)

lemma SetVariableForPort_lookup:
  "SetVariableForPort port pVar c = (None, c') \<Longrightarrow> GetVariableForPort port c' = pVar"
  by (auto simp add: SetVariableForPort_def GetVariableForPort_def split: if_splits)

lemma SetVariableForPort_frames:
  "SetVariableForPort port pVar c = (None, c') \<Longrightarrow>
   portToVarMaps c \<noteq> [] \<and> port_addr port \<notin> dom (last (portToVarMaps c)) \<and>
   c' = c\<lparr>portToVarMaps := butlast (portToVarMaps c) @
          [(last (portToVarMaps c))(port_addr port \<mapsto> pVar)]\<rparr>"
  by (auto simp add: SetVariableForPort_def split: if_splits)

lemma AllocatePortVariable_port_result:
  "AllocatePortVariable_port ptv port c = (Inr pVar, c') \<Longrightarrow>
   port_Size port \<noteq> 0 \<and> pVar = Some (length (variables (emitter c))) \<and>
   GetVariableForPort port c' = pVar \<and>
   portToVarMaps c \<noteq> [] \<and>
   portToVarMaps c' = butlast (portToVarMaps c) @ [(last (portToVarMaps c))(port_addr port \<mapsto> pVar)] \<and>
   variables (emitter c') = variables (emitter c) @
     [\<lparr>var_scope = Scope_global, var_type = ptv (port_Type port), var_size = port_Size port,
       var_initialValue = None\<rparr>] \<and>
   allocated (emitter c') = allocated (emitter c) @ [pVar]"
proof -
  assume a: "AllocatePortVariable_port ptv port c = (Inr pVar, c')"
  then have sz: "port_Size port \<noteq> 0"
    by (auto simp add: AllocatePortVariable_port_def split: if_splits)
  let ?p = "Some (length (variables (emitter c)))"
  let ?em = "AllocateVariable ?p (snd (AddVectorVariable Scope_global (ptv (port_Type port))
                (port_Size port) (emitter c)))"
  from a sz have s: "SetVariableForPort port ?p (c\<lparr>emitter := ?em\<rparr>) = (None, c')"
    and p: "pVar = ?p"
    by (auto simp add: AllocatePortVariable_port_def AddVectorVariable_def Let_def
        split: if_splits prod.splits option.splits)
  from s have l: "GetVariableForPort port c' = ?p" by (rule SetVariableForPort_lookup)
  from SetVariableForPort_frames [OF s] p l sz show ?thesis
    by (simp add: AllocateVariable_def AddVectorVariable_def)
qed


lemma GetOrAllocatePortVariable_bound:
  "GetVariableForPort port c = Some k \<Longrightarrow>
   GetOrAllocatePortVariable ptv port iv c = (Inr (Some k), c)"
  by (simp add: GetOrAllocatePortVariable_def)

lemma AllocatePortVariable_port_ok:
  assumes "port_Size port \<noteq> 0" and "portToVarMaps c \<noteq> []"
    and "port_addr port \<notin> dom (last (portToVarMaps c))"
  shows "\<exists>c'. AllocatePortVariable_port ptv port c
           = (Inr (Some (length (variables (emitter c)))), c')"
  using assms
  by (simp add: AllocatePortVariable_port_def AddVectorVariable_def AllocateVariable_def
      SetVariableForPort_def)

lemma GetOrAllocatePortVariable_twice:
  "(port_Size port \<noteq> 0 \<and> portToVarMaps c \<noteq> [] \<and>
    port_addr port \<notin> dom (last (portToVarMaps c)) \<longrightarrow>
      (\<exists>pVar c1. GetOrAllocatePortVariable ptv port iv c = (Inr pVar, c1))) \<and>
   (\<forall>pVar c1. GetOrAllocatePortVariable ptv port iv c = (Inr pVar, c1) \<longrightarrow>
      GetOrAllocatePortVariable ptv port iv' c1 = (Inr pVar, c1) \<and>
      GetOrAllocatePortVariable ptv port iv' (PushScope c1) = (Inr pVar, PushScope c1) \<and>
      (GetVariableForPort port c = None \<longrightarrow>
         pVar = Some (length (variables (emitter c))) \<and>
         length (variables (emitter c1)) = Suc (length (variables (emitter c))) \<and>
         last (portToVarMaps c1) (port_addr port) = Some pVar \<and>
         length (portToVarMaps c1) = length (portToVarMaps c)) \<and>
      (GetVariableForPort port c \<noteq> None \<longrightarrow>
         c1 = c \<and> pVar = GetVariableForPort port c))"
proof (intro conjI impI allI)
  assume h: "port_Size port \<noteq> 0 \<and> portToVarMaps c \<noteq> [] \<and>
    port_addr port \<notin> dom (last (portToVarMaps c))"
  show "\<exists>pVar c1. GetOrAllocatePortVariable ptv port iv c = (Inr pVar, c1)"
  proof (cases "GetVariableForPort port c")
    case None
    from h obtain c' where "AllocatePortVariable_port ptv port c
           = (Inr (Some (length (variables (emitter c)))), c')"
      using AllocatePortVariable_port_ok [of port c ptv] by blast
    with None show ?thesis by (simp add: GetOrAllocatePortVariable_def)
  next
    case (Some k)
    then show ?thesis by (simp add: GetOrAllocatePortVariable_def)
  qed
next
  fix pVar c1
  assume r: "GetOrAllocatePortVariable ptv port iv c = (Inr pVar, c1)"
  have found: "\<exists>k. pVar = Some k \<and> GetVariableForPort port c1 = Some k"
  proof (cases "GetVariableForPort port c")
    case None
    with r have a: "AllocatePortVariable_port ptv port c = (Inr pVar, c1)"
      by (auto simp add: GetOrAllocatePortVariable_def split: prod.splits sum.splits if_splits)
    from AllocatePortVariable_port_result [OF a] show ?thesis by simp
  next
    case (Some k)
    then have "GetOrAllocatePortVariable ptv port iv c = (Inr (Some k), c)"
      by (rule GetOrAllocatePortVariable_bound)
    with r have "pVar = Some k" and "c1 = c" by simp_all
    with Some show ?thesis by blast
  qed
  then obtain k where k: "pVar = Some k" "GetVariableForPort port c1 = Some k" by blast
  show "GetOrAllocatePortVariable ptv port iv' c1 = (Inr pVar, c1)"
    using k by (simp add: GetOrAllocatePortVariable_bound)
  show "GetOrAllocatePortVariable ptv port iv' (PushScope c1) = (Inr pVar, PushScope c1)"
    using k by (simp add: GetOrAllocatePortVariable_bound GetVariableForPort_PushScope)
  {
    assume None: "GetVariableForPort port c = None"
    with r have a: "AllocatePortVariable_port ptv port c = (Inr pVar, c1)"
      by (auto simp add: GetOrAllocatePortVariable_def split: prod.splits sum.splits if_splits)
    note res = AllocatePortVariable_port_result [OF a]
    from res show "pVar = Some (length (variables (emitter c)))" by simp
    from res show "length (variables (emitter c1)) = Suc (length (variables (emitter c)))"
      by simp
    from res show "last (portToVarMaps c1) (port_addr port) = Some pVar" by simp
    from res show "length (portToVarMaps c1) = length (portToVarMaps c)" by simp
  }
  {
    assume "GetVariableForPort port c \<noteq> None"
    then obtain j where j: "GetVariableForPort port c = Some j" by blast
    with r show "c1 = c" by (simp add: GetOrAllocatePortVariable_def)
    from j r show "pVar = GetVariableForPort port c" by (simp add: GetOrAllocatePortVariable_def)
  }
qed



lemma findBinding_firstBound: "findBinding k fs = firstBound (map (\<lambda>f. f k) fs)"
  by (induction fs) (auto split: option.splits)

lemma firstBound_replicate_None: "firstBound (replicate m None @ xs) = firstBound xs"
  by (induction m) auto

lemma map_all_None:
  "\<forall>f\<in>set fs. f k = None \<Longrightarrow> map (\<lambda>f. f k) fs = replicate (length fs) None"
  by (induction fs) auto

lemma GetVariableForPort_column:
  assumes "map (\<lambda>f. f (port_addr port)) (portToVarMaps c) = base @ replicate m None"
  shows "GetVariableForPort port c = firstBound (rev base)"
proof -
  have "GetVariableForPort port c
      = firstBound (rev (map (\<lambda>f. f (port_addr port)) (portToVarMaps c)))"
    by (simp add: GetVariableForPort_def findBinding_firstBound rev_map)
  also have "\<dots> = firstBound (replicate m None @ rev base)"
    using assms by simp
  finally show ?thesis by (simp add: firstBound_replicate_None)
qed

lemma GetVariableForPort_addr:
  "port_addr q = port_addr port \<Longrightarrow> GetVariableForPort q c = GetVariableForPort port c"
  by (simp add: GetVariableForPort_def)

lemma GetOrAllocatePortVariable_frames:
  "portToVarMaps (snd (GetOrAllocatePortVariable ptv q iv c)) = portToVarMaps c \<or>
   (GetVariableForPort q c = None \<and> portToVarMaps c \<noteq> [] \<and>
    (\<exists>pv. portToVarMaps (snd (GetOrAllocatePortVariable ptv q iv c))
       = butlast (portToVarMaps c) @ [(last (portToVarMaps c))(port_addr q \<mapsto> pv)]))"
  by (auto simp add: GetOrAllocatePortVariable_def AllocatePortVariable_port_def
      AddVectorVariable_def AllocateVariable_def SetVariableForPort_def Let_def
      split: option.splits prod.splits sum.splits if_splits)

lemma GetOrAllocatePortVariable_column:
  assumes "GetVariableForPort port c \<noteq> None"
  shows "map (\<lambda>f. f (port_addr port)) (portToVarMaps (snd (GetOrAllocatePortVariable ptv q iv c)))
     = map (\<lambda>f. f (port_addr port)) (portToVarMaps c)"
proof -
  from GetOrAllocatePortVariable_frames [of ptv q iv c] show ?thesis
  proof
    assume "portToVarMaps (snd (GetOrAllocatePortVariable ptv q iv c)) = portToVarMaps c"
    then show ?thesis by simp
  next
    assume h: "GetVariableForPort q c = None \<and> portToVarMaps c \<noteq> [] \<and>
      (\<exists>pv. portToVarMaps (snd (GetOrAllocatePortVariable ptv q iv c))
         = butlast (portToVarMaps c) @ [(last (portToVarMaps c))(port_addr q \<mapsto> pv)])"
    then obtain pv where fs: "portToVarMaps (snd (GetOrAllocatePortVariable ptv q iv c))
         = butlast (portToVarMaps c) @ [(last (portToVarMaps c))(port_addr q \<mapsto> pv)]"
      by blast
    have ne: "port_addr q \<noteq> port_addr port"
    proof
      assume "port_addr q = port_addr port"
      then have "GetVariableForPort q c = GetVariableForPort port c"
        by (rule GetVariableForPort_addr)
      with h assms show False by simp
    qed
    have "map (\<lambda>f. f (port_addr port)) (portToVarMaps (snd (GetOrAllocatePortVariable ptv q iv c)))
        = map (\<lambda>f. f (port_addr port)) (butlast (portToVarMaps c) @ [last (portToVarMaps c)])"
      using fs ne by simp
    with h show ?thesis by simp
  qed
qed

lemma applyOps_keeps_column:
  assumes "applyOps ptv n ops c = Some c2"
    and "map (\<lambda>f. f (port_addr port)) (portToVarMaps c) = base @ replicate m None"
    and "length base = n"
    and "firstBound (rev base) \<noteq> None"
  shows "\<exists>m'. map (\<lambda>f. f (port_addr port)) (portToVarMaps c2) = base @ replicate m' None"
  using assms
proof (induction ops arbitrary: c m)
  case Nil
  then show ?case by auto
next
  case (Cons op ops)
  show ?case
  proof (cases op)
    case (Request q iv)
    let ?c' = "snd (GetOrAllocatePortVariable ptv q iv c)"
    have "GetVariableForPort port c = firstBound (rev base)"
      using Cons.prems(2) by (rule GetVariableForPort_column)
    with Cons.prems(4) have "GetVariableForPort port c \<noteq> None" by simp
    then have "map (\<lambda>f. f (port_addr port)) (portToVarMaps ?c')
        = map (\<lambda>f. f (port_addr port)) (portToVarMaps c)"
      by (rule GetOrAllocatePortVariable_column)
    with Cons.prems(2) have col: "map (\<lambda>f. f (port_addr port)) (portToVarMaps ?c')
        = base @ replicate m None" by simp
    have run: "applyOps ptv n ops ?c' = Some c2"
      using Cons.prems(1) Request by simp
    from run col Cons.prems(3) Cons.prems(4) show ?thesis by (rule Cons.IH)
  next
    case Push
    have col: "map (\<lambda>f. f (port_addr port)) (portToVarMaps (PushScope c))
        = base @ replicate (Suc m) None"
      using Cons.prems(2) by (simp add: PushScope_def replicate_append_same)
    have run: "applyOps ptv n ops (PushScope c) = Some c2"
      using Cons.prems(1) Push by simp
    from run col Cons.prems(3) Cons.prems(4) show ?thesis by (rule Cons.IH)
  next
    case Pop
    from Cons.prems(1) Pop have deep: "n < length (portToVarMaps c)"
      and run: "applyOps ptv n ops (snd (PopScope c)) = Some c2"
      by (simp_all split: if_splits)
    have "length (map (\<lambda>f. f (port_addr port)) (portToVarMaps c)) = n + m"
      using Cons.prems(2) Cons.prems(3) by simp
    with deep obtain m' where m: "m = Suc m'" by (cases m) auto
    have "map (\<lambda>f. f (port_addr port)) (portToVarMaps c)
        = (base @ replicate m' None) @ [None]"
      using Cons.prems(2) m by (simp add: replicate_append_same)
    then have "butlast (map (\<lambda>f. f (port_addr port)) (portToVarMaps c))
        = base @ replicate m' None"
      by (simp only: butlast_snoc)
    moreover have "portToVarMaps (snd (PopScope c)) = butlast (portToVarMaps c)"
      using deep by (auto simp add: PopScope_def)
    ultimately have col: "map (\<lambda>f. f (port_addr port)) (portToVarMaps (snd (PopScope c)))
        = base @ replicate m' None"
      by (simp add: map_butlast)
    from run col Cons.prems(3) Cons.prems(4) show ?thesis by (rule Cons.IH)
  qed
qed

lemma GetOrAllocatePortVariable_returns_bound:
  "GetOrAllocatePortVariable ptv port iv c = (Inr pVar, c1) \<Longrightarrow>
   pVar \<noteq> None \<and> GetVariableForPort port c1 = pVar"
proof -
  assume r: "GetOrAllocatePortVariable ptv port iv c = (Inr pVar, c1)"
  from GetOrAllocatePortVariable_twice [where port = port and c = c and ptv = ptv and iv = iv
      and iv' = iv] r
  have again: "GetOrAllocatePortVariable ptv port iv c1 = (Inr pVar, c1)" by blast
  have ne: "pVar \<noteq> None"
  proof (cases "GetVariableForPort port c")
    case None
    with r show ?thesis
      by (auto simp add: GetOrAllocatePortVariable_def split: prod.splits sum.splits if_splits)
  next
    case (Some k)
    then have "GetOrAllocatePortVariable ptv port iv c = (Inr (Some k), c)"
      by (rule GetOrAllocatePortVariable_bound)
    with r have "pVar = Some k" by simp
    then show ?thesis by simp
  qed
  show ?thesis
  proof (cases "GetVariableForPort port c1")
    case None
    with again have a: "AllocatePortVariable_port ptv port c1 = (Inr pVar, c1)"
      by (auto simp add: GetOrAllocatePortVariable_def split: prod.splits sum.splits if_splits)
    from AllocatePortVariable_port_result [OF a] None ne show ?thesis by simp
  next
    case (Some k)
    then have "GetOrAllocatePortVariable ptv port iv c1 = (Inr (Some k), c1)"
      by (rule GetOrAllocatePortVariable_bound)
    with again Some ne show ?thesis by simp
  qed
qed

lemma GetOrAllocatePortVariable_after_ops:
  assumes first: "GetOrAllocatePortVariable ptv port iv c = (Inr pVar, c1)"
    and n: "n \<le> length (portToVarMaps c1)"
    and held: "findBinding (port_addr port) (rev (take n (portToVarMaps c1))) = pVar"
    and above: "\<forall>f\<in>set (drop n (portToVarMaps c1)). f (port_addr port) = None"
    and run: "applyOps ptv n ops c1 = Some c2"
  shows "GetOrAllocatePortVariable ptv port iv' c2 = (Inr pVar, c2)"
proof -
  let ?k = "port_addr port"
  let ?base = "map (\<lambda>f. f ?k) (take n (portToVarMaps c1))"
  from first have ne: "pVar \<noteq> None"
    by (simp add: GetOrAllocatePortVariable_returns_bound)
  have fb: "firstBound (rev ?base) = pVar"
    using held by (simp add: findBinding_firstBound rev_map)
  have "map (\<lambda>f. f ?k) (portToVarMaps c1)
      = ?base @ map (\<lambda>f. f ?k) (drop n (portToVarMaps c1))"
    by (simp only: map_append [symmetric] append_take_drop_id)
  also have "map (\<lambda>f. f ?k) (drop n (portToVarMaps c1))
      = replicate (length (drop n (portToVarMaps c1))) None"
    using above by (rule map_all_None)
  finally have col: "map (\<lambda>f. f ?k) (portToVarMaps c1)
      = ?base @ replicate (length (drop n (portToVarMaps c1))) None" .
  have len: "length ?base = n" using n by simp
  from fb ne have nn: "firstBound (rev ?base) \<noteq> None" by simp
  from applyOps_keeps_column [OF run col len nn]
  obtain m' where "map (\<lambda>f. f ?k) (portToVarMaps c2) = ?base @ replicate m' None" by blast
  then have "GetVariableForPort port c2 = firstBound (rev ?base)"
    by (rule GetVariableForPort_column)
  with fb ne obtain v where "pVar = Some v" and "GetVariableForPort port c2 = Some v" by auto
  then show ?thesis by (simp add: GetOrAllocatePortVariable_bound)
qed

text \<open>
  Claim C1. Whenever \<^verbatim>\<open>GetOrAllocatePortVariable\<close> returns a variable for a port, every
  later call for the same port returns the identical variable and leaves the compiler as
  it is, so that no variable is allocated: a call made at once, a call after a further
  \<^verbatim>\<open>PushScope\<close>, and a call after any sequence of requests for this or other ports and of
  scopes pushed and popped, as long as no pop closes one of the first \<open>n\<close> frames, where
  these hold the binding and no frame above them binds the port. The depth of the first
  call is always such an \<open>n\<close>. When the port had no binding, the first call created one
  new variable and bound it in the current frame; when it had one, the first call
  returned it and changed nothing. The first call does return a variable for a port of
  nonzero size that the current frame does not bind.
\<close>

theorem GetOrAllocatePortVariable_idempotent:
  "(port_Size port \<noteq> 0 \<and> portToVarMaps c \<noteq> [] \<and>
    port_addr port \<notin> dom (last (portToVarMaps c)) \<longrightarrow>
      (\<exists>pVar c1. GetOrAllocatePortVariable ptv port iv c = (Inr pVar, c1))) \<and>
   (\<forall>pVar c1. GetOrAllocatePortVariable ptv port iv c = (Inr pVar, c1) \<longrightarrow>
      GetOrAllocatePortVariable ptv port iv' c1 = (Inr pVar, c1) \<and>
      GetOrAllocatePortVariable ptv port iv' (PushScope c1) = (Inr pVar, PushScope c1) \<and>
      (GetVariableForPort port c = None \<longrightarrow>
         pVar = Some (length (variables (emitter c))) \<and>
         length (variables (emitter c1)) = Suc (length (variables (emitter c))) \<and>
         last (portToVarMaps c1) (port_addr port) = Some pVar \<and>
         length (portToVarMaps c1) = length (portToVarMaps c)) \<and>
      (GetVariableForPort port c \<noteq> None \<longrightarrow>
         c1 = c \<and> pVar = GetVariableForPort port c) \<and>
      (\<forall>n ops c2.
         n \<le> length (portToVarMaps c1) \<and>
         findBinding (port_addr port) (rev (take n (portToVarMaps c1))) = pVar \<and>
         (\<forall>f\<in>set (drop n (portToVarMaps c1)). f (port_addr port) = None) \<and>
         applyOps ptv n ops c1 = Some c2 \<longrightarrow>
           GetOrAllocatePortVariable ptv port iv' c2 = (Inr pVar, c2)) \<and>
      (\<forall>ops c2.
         applyOps ptv (length (portToVarMaps c1)) ops c1 = Some c2 \<longrightarrow>
           GetOrAllocatePortVariable ptv port iv' c2 = (Inr pVar, c2)))"
proof (intro conjI allI impI)
  assume "port_Size port \<noteq> 0 \<and> portToVarMaps c \<noteq> [] \<and>
    port_addr port \<notin> dom (last (portToVarMaps c))"
  with GetOrAllocatePortVariable_twice [where port = port and c = c and ptv = ptv and iv = iv]
  show "\<exists>pVar c1. GetOrAllocatePortVariable ptv port iv c = (Inr pVar, c1)"
    by (rule conjunct1 [THEN mp])
next
  fix pVar c1
  assume first: "GetOrAllocatePortVariable ptv port iv c = (Inr pVar, c1)"
  from GetOrAllocatePortVariable_twice
      [where port = port and c = c and ptv = ptv and iv = iv and iv' = iv'] first
  have old: "GetOrAllocatePortVariable ptv port iv' c1 = (Inr pVar, c1) \<and>
      GetOrAllocatePortVariable ptv port iv' (PushScope c1) = (Inr pVar, PushScope c1) \<and>
      (GetVariableForPort port c = None \<longrightarrow>
         pVar = Some (length (variables (emitter c))) \<and>
         length (variables (emitter c1)) = Suc (length (variables (emitter c))) \<and>
         last (portToVarMaps c1) (port_addr port) = Some pVar \<and>
         length (portToVarMaps c1) = length (portToVarMaps c)) \<and>
      (GetVariableForPort port c \<noteq> None \<longrightarrow>
         c1 = c \<and> pVar = GetVariableForPort port c)"
    by blast
  from old show "GetOrAllocatePortVariable ptv port iv' c1 = (Inr pVar, c1)"
    by (rule conjunct1)
  from old show "GetOrAllocatePortVariable ptv port iv' (PushScope c1) = (Inr pVar, PushScope c1)"
    by (rule conjunct2 [THEN conjunct1])
  {
    assume "GetVariableForPort port c = None"
    with old have alloc: "pVar = Some (length (variables (emitter c))) \<and>
         length (variables (emitter c1)) = Suc (length (variables (emitter c))) \<and>
         last (portToVarMaps c1) (port_addr port) = Some pVar \<and>
         length (portToVarMaps c1) = length (portToVarMaps c)"
      by (rule conjunct2 [THEN conjunct2, THEN conjunct1, THEN mp])
    from alloc show "pVar = Some (length (variables (emitter c)))"
      by (rule conjunct1)
    from alloc show "length (variables (emitter c1)) = Suc (length (variables (emitter c)))"
      by (rule conjunct2 [THEN conjunct1])
    from alloc show "last (portToVarMaps c1) (port_addr port) = Some pVar"
      by (rule conjunct2 [THEN conjunct2, THEN conjunct1])
    from alloc show "length (portToVarMaps c1) = length (portToVarMaps c)"
      by (rule conjunct2 [THEN conjunct2, THEN conjunct2])
  }
  {
    assume "GetVariableForPort port c \<noteq> None"
    with old have found: "c1 = c \<and> pVar = GetVariableForPort port c"
      by (rule conjunct2 [THEN conjunct2, THEN conjunct2, THEN mp])
    from found show "c1 = c" by (rule conjunct1)
    from found show "pVar = GetVariableForPort port c" by (rule conjunct2)
  }
  {
    fix n ops c2
    assume h: "n \<le> length (portToVarMaps c1) \<and>
         findBinding (port_addr port) (rev (take n (portToVarMaps c1))) = pVar \<and>
         (\<forall>f\<in>set (drop n (portToVarMaps c1)). f (port_addr port) = None) \<and>
         applyOps ptv n ops c1 = Some c2"
    from h have n: "n \<le> length (portToVarMaps c1)" by (rule conjunct1)
    from h have held: "findBinding (port_addr port) (rev (take n (portToVarMaps c1))) = pVar"
      by (rule conjunct2 [THEN conjunct1])
    from h have above: "\<forall>f\<in>set (drop n (portToVarMaps c1)). f (port_addr port) = None"
      by (rule conjunct2 [THEN conjunct2, THEN conjunct1])
    from h have run: "applyOps ptv n ops c1 = Some c2"
      by (rule conjunct2 [THEN conjunct2, THEN conjunct2])
    from first n held above run
    show "GetOrAllocatePortVariable ptv port iv' c2 = (Inr pVar, c2)"
      by (rule GetOrAllocatePortVariable_after_ops)
  }
  {
    fix ops c2
    assume run: "applyOps ptv (length (portToVarMaps c1)) ops c1 = Some c2"
    from first have "GetVariableForPort port c1 = pVar"
      by (simp add: GetOrAllocatePortVariable_returns_bound)
    then have held: "findBinding (port_addr port)
        (rev (take (length (portToVarMaps c1)) (portToVarMaps c1))) = pVar"
      by (simp add: GetVariableForPort_def)
    have above: "\<forall>f\<in>set (drop (length (portToVarMaps c1)) (portToVarMaps c1)).
        f (port_addr port) = None"
      by simp
    from first _ held above run
    show "GetOrAllocatePortVariable ptv port iv' c2 = (Inr pVar, c2)"
      by (rule GetOrAllocatePortVariable_after_ops) simp
  }
qed

theorem GetOrAllocatePortVariable_idempotent_witness:
  "GetOrAllocatePortVariable (\<lambda>t. t) \<lparr>port_addr = 7, port_Size = 3, port_Type = ''real''\<rparr> (0 :: int)
     freshCompiler
     = (Inr (Some 0),
        \<lparr>portToVarMaps = [[7 \<mapsto> Some 0]],
         emitter = \<lparr>variables = [\<lparr>var_scope = Scope_global, var_type = ''real'', var_size = 3,
                                  var_initialValue = None\<rparr>],
                    allocated = [Some 0], finalized = []\<rparr>,
         trace = []\<rparr>) \<and>
   (\<exists>c2. applyOps (\<lambda>t. t) 1
            [Request \<lparr>port_addr = 8, port_Size = 2, port_Type = ''real''\<rparr> 0, Push,
             Request \<lparr>port_addr = 9, port_Size = 4, port_Type = ''real''\<rparr> 0,
             Request \<lparr>port_addr = 7, port_Size = 3, port_Type = ''real''\<rparr> 0, Pop,
             Request \<lparr>port_addr = 8, port_Size = 2, port_Type = ''real''\<rparr> 0]
            (snd (GetOrAllocatePortVariable (\<lambda>t. t)
               \<lparr>port_addr = 7, port_Size = 3, port_Type = ''real''\<rparr> (0 :: int) freshCompiler))
          = Some c2 \<and>
        length (variables (emitter c2)) = 3 \<and>
        GetOrAllocatePortVariable (\<lambda>t. t)
          \<lparr>port_addr = 7, port_Size = 3, port_Type = ''real''\<rparr> (0 :: int) c2
          = (Inr (Some 0), c2))"
proof -
  let ?A = "\<lparr>port_addr = 7, port_Size = 3, port_Type = ''real''\<rparr>"
  let ?ops = "[Request \<lparr>port_addr = 8, port_Size = 2, port_Type = ''real''\<rparr> (0 :: int), Push,
             Request \<lparr>port_addr = 9, port_Size = 4, port_Type = ''real''\<rparr> 0,
             Request \<lparr>port_addr = 7, port_Size = 3, port_Type = ''real''\<rparr> 0, Pop,
             Request \<lparr>port_addr = 8, port_Size = 2, port_Type = ''real''\<rparr> 0]"
  let ?c1 = "\<lparr>portToVarMaps = [[7 \<mapsto> Some 0]],
         emitter = \<lparr>variables = [\<lparr>var_scope = Scope_global, var_type = ''real'', var_size = 3,
                                  var_initialValue = None :: int option\<rparr>],
                    allocated = [Some 0], finalized = []\<rparr>,
         trace = []\<rparr>"
  let ?c2 = "\<lparr>portToVarMaps = [[7 \<mapsto> Some 0, 8 \<mapsto> Some 1]],
         emitter = \<lparr>variables =
             [\<lparr>var_scope = Scope_global, var_type = ''real'', var_size = 3,
                var_initialValue = None :: int option\<rparr>,
              \<lparr>var_scope = Scope_global, var_type = ''real'', var_size = 2,
                var_initialValue = None\<rparr>,
              \<lparr>var_scope = Scope_global, var_type = ''real'', var_size = 4,
                var_initialValue = None\<rparr>],
           allocated = [Some 0, Some 1, Some 2], finalized = []\<rparr>,
         trace = []\<rparr>"
  have first: "GetOrAllocatePortVariable (\<lambda>t. t) ?A (0 :: int) freshCompiler = (Inr (Some 0), ?c1)"
    by (simp add: GetOrAllocatePortVariable_def GetVariableForPort_def freshCompiler_def
        AllocatePortVariable_port_def AddVectorVariable_def AllocateVariable_def
        SetVariableForPort_def)
  have run: "applyOps (\<lambda>t. t) (length (portToVarMaps ?c1)) ?ops ?c1 = Some ?c2"
    by (simp add: GetOrAllocatePortVariable_def GetVariableForPort_def
        AllocatePortVariable_port_def AddVectorVariable_def AllocateVariable_def
        SetVariableForPort_def PushScope_def PopScope_def)
  from GetOrAllocatePortVariable_idempotent
         [where ptv = "\<lambda>t. t" and port = ?A and iv = "0 :: int" and iv' = "0 :: int"
            and c = freshCompiler] first run
  have "GetOrAllocatePortVariable (\<lambda>t. t) ?A (0 :: int) ?c2 = (Inr (Some 0), ?c2)"
    by blast
  with first run show ?thesis by simp
qed

text \<open>
  Claim C2, at a port of three elements that no frame binds and the initial value 5. The
  claim has the variable seeded with 5, as \<^verbatim>\<open>AllocatePortVariable(port, 5)\<close> seeds it.
  \<^verbatim>\<open>GetOrAllocatePortVariable(port, 5)\<close> calls \<^verbatim>\<open>AllocatePortVariable(port)\<close> and never
  passes the value on: the variable it creates has no initial value.
\<close>

theorem GetOrAllocatePortVariable_drops_initialValue:
  "GetVariableForPort \<lparr>port_addr = 7, port_Size = 3, port_Type = ''int32''\<rparr>
     (freshCompiler :: (string, int) MapCompiler) = None \<and>
   variables (emitter (snd (GetOrAllocatePortVariable (\<lambda>t. t)
       \<lparr>port_addr = 7, port_Size = 3, port_Type = ''int32''\<rparr> (5 :: int) freshCompiler)))
     = [\<lparr>var_scope = Scope_global, var_type = ''int32'', var_size = 3,
         var_initialValue = None\<rparr>] \<and>
   variables (emitter (snd (AllocatePortVariable (\<lambda>t. t) ''int32''
       \<lparr>port_addr = 7, port_Size = 3, port_Type = ''int32''\<rparr> (5 :: int) freshCompiler)))
     = [\<lparr>var_scope = Scope_global, var_type = ''int32'', var_size = 3,
         var_initialValue = Some 5\<rparr>]"
  by (simp add: GetOrAllocatePortVariable_def GetVariableForPort_def freshCompiler_def
      AllocatePortVariable_port_def AllocatePortVariable_def AddVectorVariable_def
      AddVectorVariable_init_def AllocateVariable_def SetVariableForPort_def)

text \<open>
  Claim C3. \<^verbatim>\<open>AllocatePortVariable(port, 0)\<close> does exactly what
  \<^verbatim>\<open>AllocatePortVariable(port)\<close> does, so a zero seed cannot be told from none. Where the
  allocation succeeds, the variable created has no initial value and the port's type
  when the initial value is 0, and has the initial value, with the type of that value,
  when it is not 0.
\<close>

theorem AllocatePortVariable_zero_is_unseeded:
  "AllocatePortVariable ptv gvt port 0 c = AllocatePortVariable_port ptv port c \<and>
   (port_Size port \<noteq> 0 \<and> portToVarMaps c \<noteq> [] \<and>
    port_addr port \<notin> dom (last (portToVarMaps c)) \<longrightarrow>
      fst (AllocatePortVariable ptv gvt port iv c) = Inr (Some (length (variables (emitter c)))) \<and>
      variables (emitter (snd (AllocatePortVariable ptv gvt port iv c)))
        = variables (emitter c) @
          [if iv = 0
           then \<lparr>var_scope = Scope_global, var_type = ptv (port_Type port),
                  var_size = port_Size port, var_initialValue = None\<rparr>
           else \<lparr>var_scope = Scope_global, var_type = gvt,
                  var_size = port_Size port, var_initialValue = Some iv\<rparr>])"
  by (simp add: AllocatePortVariable_def AllocatePortVariable_port_def AddVectorVariable_def
      AddVectorVariable_init_def AllocateVariable_def SetVariableForPort_def)

theorem AllocatePortVariable_zero_is_unseeded_witness:
  "variables (emitter (snd (AllocatePortVariable (\<lambda>t. t) ''int32''
       \<lparr>port_addr = 7, port_Size = 3, port_Type = ''real''\<rparr> (0 :: int) freshCompiler)))
     = [\<lparr>var_scope = Scope_global, var_type = ''real'', var_size = 3,
         var_initialValue = None\<rparr>] \<and>
   variables (emitter (snd (AllocatePortVariable (\<lambda>t. t) ''int32''
       \<lparr>port_addr = 7, port_Size = 3, port_Type = ''real''\<rparr> (5 :: int) freshCompiler)))
     = [\<lparr>var_scope = Scope_global, var_type = ''int32'', var_size = 3,
         var_initialValue = Some 5\<rparr>]"
  using AllocatePortVariable_zero_is_unseeded
          [where ptv = "\<lambda>t. t" and gvt = "''int32''" and iv = "0 :: int" and c = freshCompiler
             and port = "\<lparr>port_addr = 7, port_Size = 3, port_Type = ''real''\<rparr>",
           THEN conjunct2]
        AllocatePortVariable_zero_is_unseeded
          [where ptv = "\<lambda>t. t" and gvt = "''int32''" and iv = "5 :: int" and c = freshCompiler
             and port = "\<lparr>port_addr = 7, port_Size = 3, port_Type = ''real''\<rparr>",
           THEN conjunct2]
  by (simp add: freshCompiler_def)

text \<open>
  Claim C5. \<^verbatim>\<open>GetVariableForPort\<close> is a function of the port and the compiler that
  returns a variable only, so it modifies nothing. With no frame it finds nothing; with
  frames it returns the binding of the innermost frame if that frame binds the port, and
  otherwise what the enclosing frames give. After a binding in the current frame the
  lookup returns that binding. Binding a port in a new inner frame makes the lookup return
  the inner binding; popping that frame gives back the compiler as it was, and the lookup
  returns what it returned before: the outer binding, or not-found.
\<close>

theorem GetVariableForPort_scoping:
  "GetVariableForPort port (c\<lparr>portToVarMaps := []\<rparr>) = None \<and>
   GetVariableForPort port (c\<lparr>portToVarMaps := fs @ [f]\<rparr>)
     = (case f (port_addr port) of
          Some pVar \<Rightarrow> pVar
        | None \<Rightarrow> GetVariableForPort port (c\<lparr>portToVarMaps := fs\<rparr>)) \<and>
   (SetVariableForPort port pVar c = (None, c') \<longrightarrow> GetVariableForPort port c' = pVar) \<and>
   fst (SetVariableForPort port pVar (PushScope c)) = None \<and>
   GetVariableForPort port (snd (SetVariableForPort port pVar (PushScope c))) = pVar \<and>
   PopScope (snd (SetVariableForPort port pVar (PushScope c))) = (None, c) \<and>
   GetVariableForPort port (snd (PopScope (snd (SetVariableForPort port pVar (PushScope c)))))
     = GetVariableForPort port c"
proof -
  have a: "GetVariableForPort port (c\<lparr>portToVarMaps := []\<rparr>) = None"
    by (simp add: GetVariableForPort_def)
  have b: "GetVariableForPort port (c\<lparr>portToVarMaps := fs @ [f]\<rparr>)
     = (case f (port_addr port) of
          Some pVar \<Rightarrow> pVar
        | None \<Rightarrow> GetVariableForPort port (c\<lparr>portToVarMaps := fs\<rparr>))"
    by (simp add: GetVariableForPort_def split: option.split)
  have d: "SetVariableForPort port pVar c = (None, c') \<longrightarrow> GetVariableForPort port c' = pVar"
    by (auto dest: SetVariableForPort_lookup)
  have e: "SetVariableForPort port pVar (PushScope c)
     = (None, c\<lparr>portToVarMaps := portToVarMaps c @ [[port_addr port \<mapsto> pVar]]\<rparr>)"
    by (simp add: SetVariableForPort_def PushScope_def)
  have g: "PopScope (c\<lparr>portToVarMaps := portToVarMaps c @ [[port_addr port \<mapsto> pVar]]\<rparr>)
     = (None, c)"
    by (simp add: PopScope_def)
  have h: "GetVariableForPort port
      (c\<lparr>portToVarMaps := portToVarMaps c @ [[port_addr port \<mapsto> pVar]]\<rparr>) = pVar"
    by (simp add: GetVariableForPort_def)
  from a b d e g h show ?thesis by simp
qed

theorem GetVariableForPort_scoping_witness:
  "GetVariableForPort \<lparr>port_addr = 7, port_Size = 3, port_Type = ''real''\<rparr>
     (\<lparr>portToVarMaps = [[7 \<mapsto> Some 0]], emitter = emitter freshCompiler, trace = []\<rparr>
        :: (string, int) MapCompiler) = Some 0 \<and>
   GetVariableForPort \<lparr>port_addr = 7, port_Size = 3, port_Type = ''real''\<rparr>
     (\<lparr>portToVarMaps = [[7 \<mapsto> Some 0], [7 \<mapsto> Some 1]], emitter = emitter freshCompiler,
       trace = []\<rparr> :: (string, int) MapCompiler) = Some 1 \<and>
   SetVariableForPort \<lparr>port_addr = 7, port_Size = 3, port_Type = ''real''\<rparr> (Some 1)
     (PushScope (\<lparr>portToVarMaps = [[7 \<mapsto> Some 0]], emitter = emitter freshCompiler,
       trace = []\<rparr> :: (string, int) MapCompiler))
     = (None, \<lparr>portToVarMaps = [[7 \<mapsto> Some 0], [7 \<mapsto> Some 1]],
               emitter = emitter freshCompiler, trace = []\<rparr>) \<and>
   PopScope (\<lparr>portToVarMaps = [[7 \<mapsto> Some 0], [7 \<mapsto> Some 1]], emitter = emitter freshCompiler,
       trace = []\<rparr> :: (string, int) MapCompiler)
     = (None, \<lparr>portToVarMaps = [[7 \<mapsto> Some 0]], emitter = emitter freshCompiler, trace = []\<rparr>)"
proof -
  let ?p = "\<lparr>port_addr = 7, port_Size = 3, port_Type = ''real''\<rparr>"
  let ?c = "\<lparr>portToVarMaps = [[7 \<mapsto> Some 0]], emitter = emitter freshCompiler, trace = []\<rparr>
        :: (string, int) MapCompiler"
  have s: "SetVariableForPort ?p (Some 1) (PushScope ?c)
     = (None, \<lparr>portToVarMaps = [[7 \<mapsto> Some 0], [7 \<mapsto> Some 1]],
               emitter = emitter freshCompiler, trace = []\<rparr>)"
    by (simp add: SetVariableForPort_def PushScope_def)
  have l: "GetVariableForPort ?p ?c = Some 0"
    by (simp add: GetVariableForPort_def)
  from GetVariableForPort_scoping [where port = ?p and c = ?c and pVar = "Some 1"] s l
  show ?thesis by simp
qed

subsection \<open>Compiling a map\<close>

lemma CompileNodes_append:
  "CompileNodes lower merge (xs @ ys) c =
     (case CompileNodes lower merge xs c of
        (Some f, c') \<Rightarrow> (Some f, c')
      | (None, c') \<Rightarrow> CompileNodes lower merge ys c')"
  by (induction xs arbitrary: c) (auto simp add: Let_def split: prod.splits option.splits)

lemma AllocatePortVariable_zero_size:
  "port_Size port = 0 \<Longrightarrow> AllocatePortVariable ptv gvt port iv c = (Inl MalformedPort, c)"
  by (simp add: AllocatePortVariable_def)

lemma AllocatePortVariable_nonzero_size:
  "port_Size port \<noteq> 0 \<Longrightarrow> fst (AllocatePortVariable ptv gvt port iv c) \<noteq> Inl MalformedPort"
  by (auto simp add: AllocatePortVariable_def SetVariableForPort_def Let_def
      split: prod.splits option.splits if_splits)

text \<open>
  Claim C4. \<^verbatim>\<open>AllocatePortVariable\<close> raises the malformed-port fault, the failure of
  \<^verbatim>\<open>assert(port.Size() != 0)\<close>, for a port of zero elements, and leaves the compiler as
  it is; it never raises this fault for a port with elements. When the lowering of a node
  requests a variable for such a port, \<^verbatim>\<open>CompileMap\<close> ends with this fault: the emitter
  and the registry stay as the nodes before left them, and no function is finalized.
\<close>

theorem zero_size_port_aborts_compilation:
  "(port_Size port = 0 \<longrightarrow> AllocatePortVariable ptv gvt port iv c = (Inl MalformedPort, c)) \<and>
   (port_Size port \<noteq> 0 \<longrightarrow>
      fst (AllocatePortVariable ptv gvt port iv c) \<noteq> Inl MalformedPort) \<and>
   (port_Size port = 0 \<and> node_outputs n = port # ports \<and>
    (\<forall>c'. lower n c' = requestOutputVariable ptv gvt iv n c') \<and>
    map_inputs m \<noteq> [] \<and> map_outputs m \<noteq> [] \<and> map_nodes m = pre @ n # post \<and>
    AllocateMapFunctionArguments ptv m c0 = (None, c1) \<and>
    CompileNodes lower merge pre (record_event BeginCompileModel c1) = (None, c2) \<longrightarrow>
      (\<exists>c3. CompileMap lower merge ptv m functionName c0 = (Some MalformedPort, c3) \<and>
            emitter c3 = emitter c2 \<and> portToVarMaps c3 = portToVarMaps c2))"
proof (intro conjI impI)
  assume "port_Size port = 0"
  then show "AllocatePortVariable ptv gvt port iv c = (Inl MalformedPort, c)"
    by (rule AllocatePortVariable_zero_size)
next
  assume "port_Size port \<noteq> 0"
  then show "fst (AllocatePortVariable ptv gvt port iv c) \<noteq> Inl MalformedPort"
    by (rule AllocatePortVariable_nonzero_size)
next
  assume h: "port_Size port = 0 \<and> node_outputs n = port # ports \<and>
    (\<forall>c'. lower n c' = requestOutputVariable ptv gvt iv n c') \<and>
    map_inputs m \<noteq> [] \<and> map_outputs m \<noteq> [] \<and> map_nodes m = pre @ n # post \<and>
    AllocateMapFunctionArguments ptv m c0 = (None, c1) \<and>
    CompileNodes lower merge pre (record_event BeginCompileModel c1) = (None, c2)"
  have low: "lower n c' = (Some MalformedPort, c')" for c'
    using h by (simp add: requestOutputVariable_def AllocatePortVariable_zero_size)
  let ?b = "record_event (BeginCompileNode (node_id n)) c2"
  let ?r = "record_event (NodeRegion (node_id n)) ?b"
  let ?c3 = "record_event (MergeNodeRegion (node_id n) (merge n ?r)) ?r"
  have "CompileNodes lower merge (n # post) c2 = (Some MalformedPort, ?c3)"
    by (simp add: low Let_def)
  with h have "CompileNodes lower merge (map_nodes m) (record_event BeginCompileModel c1)
      = (Some MalformedPort, ?c3)"
    by (simp add: CompileNodes_append)
  with h have "CompileMap lower merge ptv m functionName c0 = (Some MalformedPort, ?c3)"
    by (simp add: CompileMap_def)
  moreover have "emitter ?c3 = emitter c2" and "portToVarMaps ?c3 = portToVarMaps c2"
    by (simp_all add: record_event_def)
  ultimately show "\<exists>c3. CompileMap lower merge ptv m functionName c0 = (Some MalformedPort, c3) \<and>
            emitter c3 = emitter c2 \<and> portToVarMaps c3 = portToVarMaps c2"
    by blast
qed

theorem zero_size_port_aborts_compilation_witness:
  "AllocatePortVariable (\<lambda>t. t) ''int32'' \<lparr>port_addr = 9, port_Size = 0, port_Type = ''real''\<rparr>
     (0 :: int) freshCompiler = (Inl MalformedPort, freshCompiler) \<and>
   fst (AllocatePortVariable (\<lambda>t. t) ''int32'' \<lparr>port_addr = 9, port_Size = 2, port_Type = ''real''\<rparr>
     (0 :: int) freshCompiler) = Inr (Some 0) \<and>
   (\<exists>c3. CompileMap (requestOutputVariable (\<lambda>t. t) ''int32'' (0 :: int)) (\<lambda>n c. False) (\<lambda>t. t)
      \<lparr>map_inputs = [\<lparr>port_addr = 1, port_Size = 1, port_Type = ''real''\<rparr>],
        map_outputs = [\<lparr>port_addr = 2, port_Size = 1, port_Type = ''real''\<rparr>],
        map_nodes = [\<lparr>node_id = 5, node_inputs = [],
                      node_outputs = [\<lparr>port_addr = 9, port_Size = 0, port_Type = ''real''\<rparr>]\<rparr>]\<rparr>
      ''predict'' freshCompiler = (Some MalformedPort, c3) \<and>
      finalized (emitter c3) = [])"
proof -
  let ?z = "\<lparr>port_addr = 9, port_Size = 0, port_Type = ''real''\<rparr>"
  let ?n = "\<lparr>node_id = 5, node_inputs = [], node_outputs = [?z]\<rparr>"
  let ?m = "\<lparr>map_inputs = [\<lparr>port_addr = 1, port_Size = 1, port_Type = ''real''\<rparr>],
        map_outputs = [\<lparr>port_addr = 2, port_Size = 1, port_Type = ''real''\<rparr>],
        map_nodes = [?n]\<rparr>"
  let ?lower = "requestOutputVariable (\<lambda>t. t) ''int32'' (0 :: int)"
  let ?c1 = "\<lparr>portToVarMaps = [[1 \<mapsto> Some 0, 2 \<mapsto> Some 1]],
     emitter = \<lparr>variables =
         [\<lparr>var_scope = Scope_input, var_type = ''real'', var_size = 1,
            var_initialValue = None :: int option\<rparr>,
          \<lparr>var_scope = Scope_output, var_type = ''real'', var_size = 1,
            var_initialValue = None\<rparr>],
       allocated = [], finalized = []\<rparr>,
     trace = []\<rparr>"
  have args: "AllocateMapFunctionArguments (\<lambda>t. t) ?m freshCompiler = (None, ?c1)"
    by (simp add: AllocateMapFunctionArguments_def AllocatePortFunctionArgument_def
        AddVectorVariable_def SetVariableForPort_def freshCompiler_def)
  have pre: "CompileNodes ?lower (\<lambda>n c. False) [] (record_event BeginCompileModel ?c1)
      = (None, record_event BeginCompileModel ?c1)"
    by simp
  have a: "AllocatePortVariable (\<lambda>t. t) ''int32'' ?z (0 :: int) freshCompiler
      = (Inl MalformedPort, freshCompiler)"
    using zero_size_port_aborts_compilation
            [where port = ?z and ptv = "\<lambda>t. t" and gvt = "''int32''" and iv = "0 :: int"
               and c = freshCompiler, THEN conjunct1]
    by simp
  have b: "fst (AllocatePortVariable (\<lambda>t. t) ''int32''
       \<lparr>port_addr = 9, port_Size = 2, port_Type = ''real''\<rparr> (0 :: int) freshCompiler)
      = Inr (Some 0)"
    by (simp add: AllocatePortVariable_def AddVectorVariable_def AllocateVariable_def
        SetVariableForPort_def freshCompiler_def)
  from zero_size_port_aborts_compilation
         [where port = ?z and ptv = "\<lambda>t. t" and gvt = "''int32''" and iv = "0 :: int"
            and n = ?n and ports = "[]" and lower = ?lower and m = ?m and pre = "[]"
            and post = "[]" and ?c0.0 = freshCompiler and ?c1.0 = ?c1
            and merge = "\<lambda>n c. False" and ?c2.0 = "record_event BeginCompileModel ?c1"
            and functionName = "''predict''", THEN conjunct2, THEN conjunct2]
       args pre
  obtain c3 where c3: "CompileMap ?lower (\<lambda>n c. False) (\<lambda>t. t) ?m ''predict'' freshCompiler
        = (Some MalformedPort, c3)"
    and em: "emitter c3 = emitter (record_event BeginCompileModel ?c1)"
    by auto
  from em have "finalized (emitter c3) = []"
    by (simp add: record_event_def)
  with a b c3 show ?thesis by simp
qed

text \<open>
  Claim C7. \<^verbatim>\<open>CompileMap\<close> on a map without a declared input port binding, or without a
  declared output port binding, fails with the configuration fault and leaves the compiler
  as it is, whatever the node lowering and the merge policy are: no hook ran, no region
  was opened, no variable was allocated.
\<close>

theorem CompileMap_configuration_fault:
  "map_inputs m = [] \<or> map_outputs m = [] \<Longrightarrow>
   CompileMap lower merge ptv m functionName c = (Some ConfigurationFault, c)"
  by (simp add: CompileMap_def)

theorem CompileMap_configuration_fault_witness:
  "map_inputs \<lparr>map_inputs = [],
       map_outputs = [\<lparr>port_addr = 7, port_Size = 3, port_Type = ''real''\<rparr>],
       map_nodes = [\<lparr>node_id = 1, node_inputs = [],
                     node_outputs = [\<lparr>port_addr = 7, port_Size = 3, port_Type = ''real''\<rparr>]\<rparr>]\<rparr>
     = [] \<and>
   CompileMap (requestOutputVariable (\<lambda>t. t) ''int32'' (0 :: int)) (\<lambda>n c. True) (\<lambda>t. t)
     \<lparr>map_inputs = [],
       map_outputs = [\<lparr>port_addr = 7, port_Size = 3, port_Type = ''real''\<rparr>],
       map_nodes = [\<lparr>node_id = 1, node_inputs = [],
                     node_outputs = [\<lparr>port_addr = 7, port_Size = 3, port_Type = ''real''\<rparr>]\<rparr>]\<rparr>
     ''predict'' freshCompiler
     = (Some ConfigurationFault, freshCompiler)"
proof -
  let ?m = "\<lparr>map_inputs = [],
       map_outputs = [\<lparr>port_addr = 7, port_Size = 3, port_Type = ''real''\<rparr>],
       map_nodes = [\<lparr>node_id = 1, node_inputs = [],
                     node_outputs = [\<lparr>port_addr = 7, port_Size = 3, port_Type = ''real''\<rparr>]\<rparr>]\<rparr>"
  have h: "map_inputs ?m = [] \<or> map_outputs ?m = []" by simp
  show ?thesis
    using CompileMap_configuration_fault [OF h] by simp
qed

end
